theory Spec2Isabelle
  imports Main "HOL-Library.AList" "HOL-Library.Sublist" "HOL-Library.Char_ord"
    "HOL-Library.List_Lexorder"
begin

section \<open>The operando cell library dashboard (app.py)\<close>

text \<open>
  The dashboard is one Python script: it loads a JSON registry of sample environments,
  flattens it into a pandas frame, narrows the frame by the sidebar's criteria and derives
  the comparison cards, the compatibility matrix and the download from the narrowed frame.
  The script is embedded section by section, under the names it uses. Exceptions are
  values: a computation that can raise returns \<open>py_error + 'a\<close>, with \<open>Inl\<close> the exception.
  Text is a list of bytes (UTF-8). Numbers are integers: the registry's temperatures are
  taken to be whole degrees, so that the comparison with 100 involves no rounding.
\<close>

subsection \<open>Exceptions and their propagation\<close>

datatype py_error = KeyError string | StopIteration | JSONDecodeError | NotImplementedError
  | FileNotFoundError | PermissionError | IsADirectoryError | UnicodeDecodeError

text \<open>
  How a run of the script ends early: \<open>Stopped\<close> is the handled path (\<open>st.error\<close> with a
  message, then \<open>st.stop\<close>); \<open>Uncaught\<close> is an exception nobody catches.
\<close>

datatype halt = Stopped string | Uncaught py_error

text \<open>One statement after another: the second runs on the first one's value, if there is one.\<close>

fun then_do :: "'e + 'a \<Rightarrow> ('a \<Rightarrow> 'e + 'b) \<Rightarrow> 'e + 'b" where
  "then_do (Inl e) f = Inl e"
| "then_do (Inr x) f = f x"

subsection \<open>Section 1 of the script: the technique glossary\<close>

text \<open>
  The dict literal of lines 14 to 39, as the list of its items in insertion order. The
  keys are distinct, so no item overwrites an earlier one.
\<close>

definition TECHNIQUE_DEFINITIONS :: "(string \<times> string) list" where
  "TECHNIQUE_DEFINITIONS = [
    (''Neutron Diffraction'',
      ''Sensitive to light elements (Li, O) and isotopes. Used to determine long-range crystal structure and phase evolution.''),
    (''Muon spectroscopy'',
      ''A sensitive local probe ('' @ [CHR 0xCE, CHR 0xBC] @ ''+SR) used to quantify ion diffusion rates (Li+, Na+) and pathways at the atomic scale.''),
    (''Muon Elemental Analysis'',
      ''Uses negative muons ('' @ [CHR 0xCE, CHR 0xBC] @ ''-SR/'' @ [CHR 0xCE, CHR 0xBC] @ ''XES) to probe elemental composition far below the surface without destruction.''),
    (''SANS'',
      ''Small Angle Neutron Scattering. Probes nanoscale structures (1'' @ [CHR 0xE2, CHR 0x80, CHR 0x93] @ ''100 nm), such as porosity, SEI formation, and particle morphology.''),
    (''XPDF'',
      ''X-ray Pair Distribution Function. Probes local structure in disordered/amorphous materials (e.g., electrolytes).''),
    (''XAS'',
      ''X-ray Absorption Spectroscopy. Probes oxidation states, bond lengths, and local coordination geometry.''),
    (''XRS'',
      ''X-ray Raman Scattering. Provides electronic structure information using hard X-rays; suitable for bulk measurements.''),
    (''Soft XPS'',
      ''X-ray Photoelectron Spectroscopy. Surface-sensitive (<10 nm) analysis of elemental composition and SEI chemistry.''),
    (''AP-XPS'',
      ''Ambient Pressure XPS. Allows surface analysis at realistic pressures (solid-gas/solid-liquid interfaces), bridging the pressure gap.''),
    (''NEXAFS'',
      ''Near-Edge X-ray Absorption Fine Structure. Probes electronic structure of light elements at surfaces.''),
    (''Nano-focus XRF'',
      ''X-ray Fluorescence microscopy. Maps elemental distribution with nanoscale resolution.''),
    (''XANES'',
      ''X-ray Absorption Near Edge Structure. Determines oxidation state and local symmetry.''),
    (''Imaging'',
      ''Visualises macroscopic features like dendrites, gas evolution, and particle cracking (2D/3D).''),
    (''XRD'',
      ''X-ray Diffraction. Determines crystal structure, lattice parameters, strain, and phase evolution during cycling.''),
    (''XRD-CT'',
      ''X-ray Diffraction Computed Tomography. Combines diffraction contrast with tomography to map phase distributions and strain fields in 3D.''),
    (''DFXM'',
      ''Dark Field X-ray Microscopy. Allows high-resolution mapping of crystal orientation and strain within individual grains.''),
    (''EXAFS'',
      ''Extended X-ray Absorption Fine Structure. Analyzes average local structure and coordination numbers in materials lacking long-range order.''),
    (''RIXS'',
      ''Resonant Inelastic X-ray Scattering. Probes orbital states and charge transfer dynamics.''),
    (''Neutron Total Scattering'',
      ''Characterises non-crystalline/disordered materials (e.g., liquids) using H/D isotopic substitution.''),
    (''QENS'',
      ''Quasi-Elastic Neutron Scattering. Probes slow diffusional processes like Li-ion hopping.''),
    (''INS'',
      ''Inelastic Neutron Scattering. Probes vibrational modes to investigate material dynamics.''),
    (''Bragg Edge Imaging'',
      ''Maps crystal texture, phase distribution, and lattice strain in real space.''),
    (''Ptychography'',
      ''High-resolution phase-contrast imaging for nanoscale morphology.''),
    (''Neutron Reflectometry'',
      ''Measures thin films and buried interfaces.'')]"

subsection \<open>JSON values and the flattening of pandas' json_normalize\<close>

text \<open>
  A parsed JSON value. An object is the list of its items in insertion order, as a Python
  dict keeps them; an item list stands for a dict, so its keys are distinct.
\<close>

datatype json = JNull | JBool bool | JNum int | JStr string | JArr "json list"
  | JObj "(string \<times> json) list"

fun is_dict :: "json \<Rightarrow> bool" where
  "is_dict (JObj items) = True"
| "is_dict other = False"

fun is_list :: "json \<Rightarrow> bool" where
  "is_list (JArr xs) = True"
| "is_list other = False"

fun items_of :: "json \<Rightarrow> (string \<times> json) list" where
  "items_of (JObj items) = items"
| "items_of other = []"

text \<open>
  Assignment \<open>d[key] = value\<close> on a dict is \<open>AList.update\<close>: an existing key keeps its place
  and takes the new value, a new key goes to the end.

  \<open>normalise_json\<close> is the recursion of pandas' json_normalize on one record, with the
  separator \<open>.\<close>: a nested dict contributes its leaves under dotted keys, a dict with no
  items contributes nothing, and any other value is stored under the key reached so far.
\<close>

definition new_key :: "string \<Rightarrow> string \<Rightarrow> string" where
  "new_key key_string key = (if key_string = [] then key else key_string @ ''.'' @ key)"

fun normalise_json ::
  "json \<Rightarrow> string \<Rightarrow> (string \<times> json) list \<Rightarrow> (string \<times> json) list" where
  "normalise_json (JObj items) key_string normalized_dict =
     fold (\<lambda>item d. normalise_json (snd item) (new_key key_string (fst item)) d)
       items normalized_dict"
| "normalise_json data key_string normalized_dict =
     AList.update key_string data normalized_dict"

text \<open>
  One record: the top-level values that are not dicts first, then the flattened dicts,
  merged as \<open>{**top_dict, **nested_dict}\<close>.
\<close>

definition normalise_json_ordered :: "(string \<times> json) list \<Rightarrow> (string \<times> json) list" where
  "normalise_json_ordered data =
     (let top_dict = filter (\<lambda>item. \<not> is_dict (snd item)) data;
          nested_dict = normalise_json (JObj (filter (\<lambda>item. is_dict (snd item)) data)) [] []
      in fold (\<lambda>item d. AList.update (fst item) (snd item) d) nested_dict top_dict)"

text \<open>
  A frame is its column labels and its rows. A frame built from a list of dicts has one
  row per dict and, as columns, every key that occurs in some dict, in order of first
  appearance; a cell whose key the row's dict lacks is NaN. So a key that no dict has
  gives no column, and the frame of an empty list has no columns at all. The rows are
  kept as the dicts themselves (a missing key is the NaN cell). The row labels (the
  index) play no part in what follows and are left out.
\<close>

record 'r DataFrame =
  columns :: "string list"
  rows :: "'r list"

definition first_seen :: "'a list \<Rightarrow> 'a list" where
  "first_seen xs = rev (remdups (rev xs))"

definition json_normalize :: "(string \<times> json) list list \<Rightarrow> (string \<times> json) list DataFrame" where
  "json_normalize data =
     (let dicts = map normalise_json_ordered data
      in \<lparr>columns = first_seen (concat (map (map fst) dicts)), rows = dicts\<rparr>)"

subsection \<open>Section 2 of the script: load_registry\<close>

text \<open>
  \<open>pd.json_normalize(data)\<close> on whatever \<open>json.load\<close> returned. A dict is wrapped into a
  list of one record; a list of dicts is flattened record by record (\<open>json_normalize\<close>
  above, which also gives the empty list its empty frame); a value that is neither a dict
  nor a list (a number, a string, a boolean, null) raises NotImplementedError. What pandas
  builds from a list with an element that is not a dict depends on the kind and the order
  of the elements inside its frame constructor, which is not part of the script: that
  case is the parameter \<open>frame_of_mixed_list\<close>, a frame or an exception.
\<close>

definition pd_json_normalize ::
  "(json list \<Rightarrow> py_error + (string \<times> json) list DataFrame) \<Rightarrow> json
     \<Rightarrow> py_error + (string \<times> json) list DataFrame" where
  "pd_json_normalize frame_of_mixed_list data =
     (case data of
        JObj items \<Rightarrow> Inr (json_normalize [items])
      | JArr xs \<Rightarrow>
          (if list_all is_dict xs then Inr (json_normalize (map items_of xs))
           else frame_of_mixed_list xs)
      | other \<Rightarrow> Inl NotImplementedError)"

text \<open>
  What \<open>open\<close> and \<open>json.load\<close> find at the registry's path: \<open>open\<close> or the reading of the
  file raises (FileNotFoundError when there is no file, another exception when the path
  cannot be opened or its bytes cannot be decoded), the text is not valid JSON, or the
  text is a JSON document, of any shape.
\<close>

datatype registry_file = Open_Raises py_error | Invalid_JSON | Document json

definition not_found_message :: string where
  "not_found_message =
     ''Registry file not found. Ensure '' @ [CHR 0x27] @ ''operando_cell_registry.json''
       @ [CHR 0x27] @ '' is in the directory.''"

text \<open>
  The body of the \<open>try\<close> statement, lines 44 to 48: the frame and the document as it was
  parsed, or the exception of the first statement that raises.
\<close>

definition try_block ::
  "(json list \<Rightarrow> py_error + (string \<times> json) list DataFrame) \<Rightarrow> registry_file
     \<Rightarrow> py_error + ((string \<times> json) list DataFrame \<times> json)" where
  "try_block frame_of_mixed_list file =
     (case file of
        Open_Raises e \<Rightarrow> Inl e
      | Invalid_JSON \<Rightarrow> Inl JSONDecodeError
      | Document data \<Rightarrow>
          then_do (pd_json_normalize frame_of_mixed_list data) (\<lambda>df. Inr (df, data)))"

text \<open>
  The only handler is for FileNotFoundError: it shows the message and stops the script.
  Every other exception of the body leaves the function uncaught.
\<close>

definition load_registry ::
  "(json list \<Rightarrow> py_error + (string \<times> json) list DataFrame) \<Rightarrow> registry_file
     \<Rightarrow> halt + ((string \<times> json) list DataFrame \<times> json)" where
  "load_registry frame_of_mixed_list file =
     (case try_block frame_of_mixed_list file of
        Inl e \<Rightarrow>
          (if e = FileNotFoundError then Inl (Stopped not_found_message) else Inl (Uncaught e))
      | Inr loaded \<Rightarrow> Inr loaded)"

text \<open>
  Line 53 and what follows it: the rest of the script runs on the loader's result, and
  does not run at all when the loader stops or raises.
\<close>

definition run_script ::
  "(json list \<Rightarrow> py_error + (string \<times> json) list DataFrame) \<Rightarrow> registry_file
     \<Rightarrow> ((string \<times> json) list DataFrame \<Rightarrow> json \<Rightarrow> halt + 'page)
     \<Rightarrow> halt + 'page" where
  "run_script frame_of_mixed_list file rest_of_script =
     (case load_registry frame_of_mixed_list file of
        Inl h \<Rightarrow> Inl h
      | Inr (df, raw_json) \<Rightarrow> rest_of_script df raw_json)"

subsection \<open>Hardware records\<close>

text \<open>
  One entry of a well-formed registry, with the fields the script reads. \<open>rec_id\<close> is the
  entry's \<open>id\<close>. The two operating limits, the contact address and the 3Rs notes are
  optional: \<open>None\<close> is a key the entry does not have. \<open>limitations_3r\<close> holds the
  reliability, representativeness and reproducibility notes.
\<close>

record HardwareRecord =
  rec_id :: string
  name :: string
  type :: string
  techniques :: "string list"
  instruments :: "string list"
  cad_available :: bool
  max_temp_c :: "int option"
  pressure_control :: "bool option"
  primary_email :: "string option"
  limitations_3r :: "(string list \<times> string list \<times> string list) option"

text \<open>The entry as it stands in the JSON document (the nested, original shape).\<close>

definition optional_item :: "string \<Rightarrow> ('a \<Rightarrow> json) \<Rightarrow> 'a option \<Rightarrow> (string \<times> json) list" where
  "optional_item key to_value v = (case v of None \<Rightarrow> [] | Some x \<Rightarrow> [(key, to_value x)])"

definition str_array :: "string list \<Rightarrow> json" where
  "str_array xs = JArr (map JStr xs)"

definition to_json :: "HardwareRecord \<Rightarrow> (string \<times> json) list" where
  "to_json r =
     [(''id'', JStr (rec_id r)),
      (''name'', JStr (name r)),
      (''type'', JStr (type r)),
      (''compatibility'',
         JObj [(''techniques'', str_array (techniques r)),
               (''instruments'', str_array (instruments r))]),
      (''digital_twin'', JObj [(''cad_available'', JBool (cad_available r))]),
      (''specifications'',
         JObj [(''operating_limits'',
                JObj (optional_item ''max_temp_c'' JNum (max_temp_c r)
                      @ optional_item ''pressure_control'' JBool (pressure_control r)))])]
     @ optional_item ''contact_info'' (\<lambda>e. JObj [(''primary_email'', JStr e)]) (primary_email r)
     @ optional_item ''limitations_3r''
         (\<lambda>(rel, rep, repro). JObj [(''reliability'', str_array rel),
                                  (''representativeness'', str_array rep),
                                  (''reproducibility'', str_array repro)])
         (limitations_3r r)"

text \<open>
  The frame of a registry of hardware records: the columns json_normalize gives the
  document, and each row shown as the record it flattens (a \<open>None\<close> field is the row's
  NaN cell). This is \<open>df\<close>, and the record list is \<open>raw_json\<close>. \<open>registry_document\<close> is the
  JSON array of the records, the document a registry file with these entries holds.
\<close>

definition registry_frame :: "HardwareRecord list \<Rightarrow> HardwareRecord DataFrame" where
  "registry_frame data = \<lparr>columns = columns (json_normalize (map to_json data)), rows = data\<rparr>"

definition registry_document :: "HardwareRecord list \<Rightarrow> json" where
  "registry_document data = JArr (map (\<lambda>entry. JObj (to_json entry)) data)"

subsection \<open>Frame operations\<close>

text \<open>
  \<open>df[col]\<close> raises KeyError when the frame has no such column; otherwise it is the
  column's cells, row by row (\<open>field\<close> reads the column's cell from a row). \<open>df[mask]\<close>
  keeps the rows whose mask entry is true, in order, and keeps the columns. \<open>fillna\<close>
  puts a value in the place of every NaN.
\<close>

definition series :: "'r DataFrame \<Rightarrow> string \<Rightarrow> ('r \<Rightarrow> 'v) \<Rightarrow> py_error + 'v list" where
  "series df col field =
     (if col \<in> set (columns df) then Inr (map field (rows df)) else Inl (KeyError col))"

definition boolean_index :: "'r DataFrame \<Rightarrow> bool list \<Rightarrow> 'r DataFrame" where
  "boolean_index df keep = df\<lparr>rows := map fst (filter snd (zip (rows df) keep))\<rparr>"

definition fillna :: "'v \<Rightarrow> 'v option list \<Rightarrow> 'v list" where
  "fillna fill s = map (\<lambda>v. case v of None \<Rightarrow> fill | Some x \<Rightarrow> x) s"

subsection \<open>Section 3 of the script: the sidebar's options and criteria\<close>

text \<open>\<open>sorted(list(set(item for sublist in df[col] for item in sublist)))\<close>\<close>

definition all_techniques :: "HardwareRecord DataFrame \<Rightarrow> py_error + string list" where
  "all_techniques df =
     then_do (series df ''compatibility.techniques'' techniques)
       (\<lambda>s. Inr (sort (remdups (concat s))))"

definition all_instruments :: "HardwareRecord DataFrame \<Rightarrow> py_error + string list" where
  "all_instruments df =
     then_do (series df ''compatibility.instruments'' instruments)
       (\<lambda>s. Inr (sort (remdups (concat s))))"

text \<open>
  The widgets' values. \<open>pressure_control_only\<close> is the script's checkbox variable
  \<open>pressure_control\<close>, renamed apart from the record field.
\<close>

record FilterCriteria =
  selected_techniques :: "string list"
  selected_instruments :: "string list"
  digital_twin_only :: bool
  high_temp_only :: bool
  pressure_control_only :: bool

text \<open>
  The two multiselect widgets offer \<open>all_techniques\<close> and \<open>all_instruments\<close> as their
  options (lines 60 and 64), so every value they return occurs in the frame.
\<close>

definition selections_offered :: "HardwareRecord DataFrame \<Rightarrow> FilterCriteria \<Rightarrow> bool" where
  "selections_offered df c \<longleftrightarrow>
     set (selected_techniques c) \<subseteq> set (concat (map techniques (rows df)))
     \<and> set (selected_instruments c) \<subseteq> set (concat (map instruments (rows df)))"

subsection \<open>Section 4 of the script: the filter logic\<close>

text \<open>
  \<open>any(i in selected for i in x)\<close>, and the two steps that build their mask with it
  through \<open>apply\<close>. With selections the widgets offer, a non-empty selection is matched
  by some row, so the frame that reaches either step has rows; the statements below that
  say the engine returns are made for such selections.
\<close>

definition any_in :: "string list \<Rightarrow> string list \<Rightarrow> bool" where
  "any_in selected x = list_ex (\<lambda>i. i \<in> set selected) x"

definition technique_step ::
  "FilterCriteria \<Rightarrow> HardwareRecord DataFrame \<Rightarrow> py_error + HardwareRecord DataFrame" where
  "technique_step c filtered_df =
     (if selected_techniques c = [] then Inr filtered_df
      else then_do (series filtered_df ''compatibility.techniques'' techniques)
             (\<lambda>s. Inr (boolean_index filtered_df (map (any_in (selected_techniques c)) s))))"

definition instrument_step ::
  "FilterCriteria \<Rightarrow> HardwareRecord DataFrame \<Rightarrow> py_error + HardwareRecord DataFrame" where
  "instrument_step c filtered_df =
     (if selected_instruments c = [] then Inr filtered_df
      else then_do (series filtered_df ''compatibility.instruments'' instruments)
             (\<lambda>s. Inr (boolean_index filtered_df (map (any_in (selected_instruments c)) s))))"

text \<open>The three flags compare a column; a NaN cell is not equal to \<open>True\<close>.\<close>

definition digital_twin_step ::
  "FilterCriteria \<Rightarrow> HardwareRecord DataFrame \<Rightarrow> py_error + HardwareRecord DataFrame" where
  "digital_twin_step c filtered_df =
     (if digital_twin_only c
      then then_do (series filtered_df ''digital_twin.cad_available'' cad_available)
             (\<lambda>s. Inr (boolean_index filtered_df (map (\<lambda>v. v = True) s)))
      else Inr filtered_df)"

definition pressure_step ::
  "FilterCriteria \<Rightarrow> HardwareRecord DataFrame \<Rightarrow> py_error + HardwareRecord DataFrame" where
  "pressure_step c filtered_df =
     (if pressure_control_only c
      then then_do
             (series filtered_df ''specifications.operating_limits.pressure_control''
                pressure_control)
             (\<lambda>s. Inr (boolean_index filtered_df (map (\<lambda>v. v = Some True) s)))
      else Inr filtered_df)"

definition high_temp_step ::
  "FilterCriteria \<Rightarrow> HardwareRecord DataFrame \<Rightarrow> py_error + HardwareRecord DataFrame" where
  "high_temp_step c filtered_df =
     (if high_temp_only c
      then then_do
             (series filtered_df ''specifications.operating_limits.max_temp_c'' max_temp_c)
             (\<lambda>s. Inr (boolean_index filtered_df (map (\<lambda>t. t \<ge> 100) (fillna 25 s))))
      else Inr filtered_df)"

text \<open>Lines 80 to 95: the five steps in the script's order, starting from a copy of \<open>df\<close>.\<close>

definition filter_engine ::
  "HardwareRecord DataFrame \<Rightarrow> FilterCriteria \<Rightarrow> py_error + HardwareRecord DataFrame" where
  "filter_engine df c =
     then_do (technique_step c df) (\<lambda>d1.
     then_do (instrument_step c d1) (\<lambda>d2.
     then_do (digital_twin_step c d2) (\<lambda>d3.
     then_do (pressure_step c d3) (\<lambda>d4.
     high_temp_step c d4))))"

text \<open>The columns that the active steps read.\<close>

definition needed_columns :: "FilterCriteria \<Rightarrow> string list" where
  "needed_columns c =
     (if selected_techniques c = [] then [] else [''compatibility.techniques''])
     @ (if selected_instruments c = [] then [] else [''compatibility.instruments''])
     @ (if digital_twin_only c then [''digital_twin.cad_available''] else [])
     @ (if pressure_control_only c
        then [''specifications.operating_limits.pressure_control''] else [])
     @ (if high_temp_only c then [''specifications.operating_limits.max_temp_c''] else [])"

subsection \<open>Section 7 of the script: the comparison cards\<close>



text \<open>
  \<open>next(item for item in raw_json if item["name"] == cell_name)\<close>: the first entry with the
  name, and StopIteration when the generator is exhausted (\<open>next\<close> is given no default).
\<close>

fun lookup_by_name :: "HardwareRecord list \<Rightarrow> string \<Rightarrow> py_error + HardwareRecord" where
  "lookup_by_name [] cell_name = Inl StopIteration"
| "lookup_by_name (item # raw_json) cell_name =
     (if name item = cell_name then Inr item else lookup_by_name raw_json cell_name)"

text \<open>The key specifications of a card, read from the raw entry with \<open>dict.get\<close> defaults.\<close>

definition key_specifications :: "HardwareRecord \<Rightarrow> int \<times> bool \<times> bool" where
  "key_specifications cell_data =
     (case max_temp_c cell_data of None \<Rightarrow> 25 | Some t \<Rightarrow> t,
      case pressure_control cell_data of None \<Rightarrow> False | Some p \<Rightarrow> p,
      cad_available cell_data)"

text \<open>
  The substring test \<open>key in tech\<close>. On UTF-8 text a string is contained in another
  exactly when its bytes are contained in the other's bytes.
\<close>

fun str_in :: "string \<Rightarrow> string \<Rightarrow> bool" where
  "str_in key [] = (key = [])"
| "str_in key (c # cs) = (prefix key (c # cs) \<or> str_in key cs)"

text \<open>
  Lines 173 to 177: the loop over the glossary's items in insertion order, left at the
  first key that matches. \<open>str.lower\<close> is Python's own method, a function of the whole
  string that follows the Unicode tables; the loop takes it as the parameter \<open>str_lower\<close>.
\<close>

fun partial_match :: "(string \<Rightarrow> string) \<Rightarrow> (string \<times> string) list \<Rightarrow> string \<Rightarrow> string" where
  "partial_match str_lower [] tech = ''Definition unavailable.''"
| "partial_match str_lower ((key, val) # items) tech =
     (if str_in (str_lower key) (str_lower tech) then val
      else partial_match str_lower items tech)"

definition technique_description :: "(string \<Rightarrow> string) \<Rightarrow> string \<Rightarrow> string" where
  "technique_description str_lower tech = partial_match str_lower TECHNIQUE_DEFINITIONS tech"


subsection \<open>Section 8 of the script: the compatibility matrix\<close>

text \<open>
  A row is a dict: the key \<open>Cell\<close> with the entry's name, then one boolean per technique
  of \<open>all_techniques\<close>, each stored by assignment. The frame's name column is read inside
  the loop, so only when \<open>raw_json\<close> has an entry.
\<close>

datatype matrix_cell = Label string | Flag bool

definition matrix_row :: "string list \<Rightarrow> HardwareRecord \<Rightarrow> (string \<times> matrix_cell) list" where
  "matrix_row all_techs entry =
     fold (\<lambda>tech row. AList.update tech (Flag (tech \<in> set (techniques entry))) row)
       all_techs [(''Cell'', Label (name entry))]"

definition technique_matrix ::
  "HardwareRecord list \<Rightarrow> HardwareRecord DataFrame \<Rightarrow> string list
     \<Rightarrow> py_error + (string \<times> matrix_cell) list list" where
  "technique_matrix raw_json filtered_df all_techs =
     (if raw_json = [] then Inr []
      else then_do (series filtered_df ''name'' name)
             (\<lambda>names. Inr (map (matrix_row all_techs)
                              (filter (\<lambda>entry. name entry \<in> set names) raw_json))))"

subsection \<open>Section 9 of the script: the download\<close>

text \<open>
  \<open>visible_ids = filtered_df['id'].tolist()\<close>, then the raw entries whose id is among them.
  The download is the JSON array of these entries; \<open>json.dumps\<close> and a later \<open>json.load\<close>
  are taken to give the array back.
\<close>

definition filtered_json_download ::
  "HardwareRecord list \<Rightarrow> HardwareRecord DataFrame \<Rightarrow> py_error + HardwareRecord list" where
  "filtered_json_download raw_json filtered_df =
     then_do (series filtered_df ''id'' rec_id)
       (\<lambda>visible_ids. Inr (filter (\<lambda>entry. rec_id entry \<in> set visible_ids) raw_json))"

definition download_document :: "HardwareRecord list \<Rightarrow> registry_file" where
  "download_document entries = Document (registry_document entries)"

subsection \<open>The specification's words\<close>

text \<open>
  The specification describes the filter on records: an absent maximum temperature counts
  as 25, an absent pressure control as false, a criterion that is empty or false accepts
  every record, and a record is kept when all five criteria accept it. These definitions
  follow those words; the theorems below compare them with \<open>filter_engine\<close>.
\<close>

definition max_temp_or_default :: "HardwareRecord \<Rightarrow> int" where
  "max_temp_or_default r = (case max_temp_c r of None \<Rightarrow> 25 | Some t \<Rightarrow> t)"

definition pressure_control_or_false :: "HardwareRecord \<Rightarrow> bool" where
  "pressure_control_or_false r = (case pressure_control r of None \<Rightarrow> False | Some b \<Rightarrow> b)"

definition spec_technique_match :: "FilterCriteria \<Rightarrow> HardwareRecord \<Rightarrow> bool" where
  "spec_technique_match c r \<longleftrightarrow>
     selected_techniques c = [] \<or> set (techniques r) \<inter> set (selected_techniques c) \<noteq> {}"

definition spec_instrument_match :: "FilterCriteria \<Rightarrow> HardwareRecord \<Rightarrow> bool" where
  "spec_instrument_match c r \<longleftrightarrow>
     selected_instruments c = [] \<or> set (instruments r) \<inter> set (selected_instruments c) \<noteq> {}"

definition spec_digital_twin_match :: "FilterCriteria \<Rightarrow> HardwareRecord \<Rightarrow> bool" where
  "spec_digital_twin_match c r \<longleftrightarrow> \<not> digital_twin_only c \<or> cad_available r"

definition spec_pressure_match :: "FilterCriteria \<Rightarrow> HardwareRecord \<Rightarrow> bool" where
  "spec_pressure_match c r \<longleftrightarrow> \<not> pressure_control_only c \<or> pressure_control_or_false r"

definition spec_high_temp_match :: "FilterCriteria \<Rightarrow> HardwareRecord \<Rightarrow> bool" where
  "spec_high_temp_match c r \<longleftrightarrow> \<not> high_temp_only c \<or> max_temp_or_default r \<ge> 100"

definition spec_matches :: "FilterCriteria \<Rightarrow> HardwareRecord \<Rightarrow> bool" where
  "spec_matches c r \<longleftrightarrow>
     spec_technique_match c r \<and> spec_instrument_match c r \<and> spec_digital_twin_match c r
     \<and> spec_pressure_match c r \<and> spec_high_temp_match c r"

text \<open>
  The partial match: the key, lowercased, is contained in the candidate, lowercased.
\<close>

definition key_matches :: "(string \<Rightarrow> string) \<Rightarrow> string \<Rightarrow> string \<Rightarrow> bool" where
  "key_matches str_lower key tech \<longleftrightarrow> sublist (str_lower key) (str_lower tech)"

text \<open>
  Lowercasing, on ASCII text: each of the letters A to Z becomes the letter 32 code points
  above it, and every other character stays. Python's \<open>str.lower\<close> does this to a string
  of ASCII characters; on other strings it follows the Unicode tables (the Kelvin sign
  becomes the letter k, for one), which are not given here. \<open>lowers_ascii\<close> says of a
  function that it is \<open>str.lower\<close> as far as ASCII text goes.
\<close>

definition lower_char :: "char \<Rightarrow> char" where
  "lower_char c =
     (let n = (of_char c :: nat) in if 65 \<le> n \<and> n \<le> 90 then char_of (n + 32) else c)"

definition ascii_lower :: "string \<Rightarrow> string" where
  "ascii_lower s = map lower_char s"

definition is_ascii :: "string \<Rightarrow> bool" where
  "is_ascii s \<longleftrightarrow> list_all (\<lambda>c. (of_char c :: nat) < 128) s"

definition lowers_ascii :: "(string \<Rightarrow> string) \<Rightarrow> bool" where
  "lowers_ascii str_lower \<longleftrightarrow> (\<forall>s. is_ascii s \<longrightarrow> str_lower s = ascii_lower s)"

text \<open>
  The entries of the registry that get a row of the matrix: those whose name is the name
  of a record of the filtered frame.
\<close>

definition matrix_entries :: "HardwareRecord list \<Rightarrow> HardwareRecord DataFrame \<Rightarrow> HardwareRecord list" where
  "matrix_entries raw_json filtered_df =
     filter (\<lambda>entry. name entry \<in> set (map name (rows filtered_df))) raw_json"

text \<open>
  The record shape, on a JSON object: the identifying strings, the technique and
  instrument lists, the CAD flag and the operating limits with their optional members.
\<close>

fun is_str :: "json option \<Rightarrow> bool" where
  "is_str (Some (JStr s)) = True"
| "is_str other = False"

fun is_str_list :: "json option \<Rightarrow> bool" where
  "is_str_list (Some (JArr xs)) = list_all (\<lambda>x. is_str (Some x)) xs"
| "is_str_list other = False"

fun is_bool :: "json option \<Rightarrow> bool" where
  "is_bool (Some (JBool b)) = True"
| "is_bool other = False"

fun is_optional_bool :: "json option \<Rightarrow> bool" where
  "is_optional_bool None = True"
| "is_optional_bool other = is_bool other"

fun is_optional_num :: "json option \<Rightarrow> bool" where
  "is_optional_num None = True"
| "is_optional_num (Some (JNum n)) = True"
| "is_optional_num other = False"

fun member_of :: "json option \<Rightarrow> string \<Rightarrow> json option" where
  "member_of (Some (JObj items)) key = map_of items key"
| "member_of other key = None"

fun is_obj :: "json option \<Rightarrow> bool" where
  "is_obj (Some (JObj items)) = True"
| "is_obj other = False"

definition record_shaped :: "(string \<times> json) list \<Rightarrow> bool" where
  "record_shaped obj =
     (let entry = Some (JObj obj);
          limits = member_of (member_of entry ''specifications'') ''operating_limits''
      in is_str (member_of entry ''id'') \<and> is_str (member_of entry ''name'')
         \<and> is_str (member_of entry ''type'')
         \<and> is_str_list (member_of (member_of entry ''compatibility'') ''techniques'')
         \<and> is_str_list (member_of (member_of entry ''compatibility'') ''instruments'')
         \<and> is_bool (member_of (member_of entry ''digital_twin'') ''cad_available'')
         \<and> is_obj limits
         \<and> is_optional_num (member_of limits ''max_temp_c'')
         \<and> is_optional_bool (member_of limits ''pressure_control''))"

subsection \<open>A small registry\<close>

text \<open>
  The three cells of the specification's end-to-end scenario: A with XRD and XAS, 150
  degrees and a CAD model; B with SANS and no temperature limit given; C with XRD, 80
  degrees and pressure control. Then a second cell named A, without a CAD model, for a
  registry in which a name is shared, and a document whose one object has only an id.
\<close>

definition cell_A :: HardwareRecord where
  "cell_A = \<lparr>rec_id = ''cell-a'', name = ''A'', type = ''coin'', techniques = [''XRD'', ''XAS''],
     instruments = [''I11''], cad_available = True, max_temp_c = Some 150,
     pressure_control = None, primary_email = None, limitations_3r = None\<rparr>"

definition cell_B :: HardwareRecord where
  "cell_B = \<lparr>rec_id = ''cell-b'', name = ''B'', type = ''pouch'', techniques = [''SANS''],
     instruments = [''LOQ''], cad_available = False, max_temp_c = None,
     pressure_control = None, primary_email = None, limitations_3r = None\<rparr>"

definition cell_C :: HardwareRecord where
  "cell_C = \<lparr>rec_id = ''cell-c'', name = ''C'', type = ''capillary'', techniques = [''XRD''],
     instruments = [''I11''], cad_available = False, max_temp_c = Some 80,
     pressure_control = Some True, primary_email = None, limitations_3r = None\<rparr>"

definition cell_A_twin :: HardwareRecord where
  "cell_A_twin = \<lparr>rec_id = ''cell-a2'', name = ''A'', type = ''pouch'', techniques = [''SANS''],
     instruments = [''LOQ''], cad_available = False, max_temp_c = None,
     pressure_control = None, primary_email = None, limitations_3r = None\<rparr>"

definition registry_ABC :: "HardwareRecord list" where
  "registry_ABC = [cell_A, cell_B, cell_C]"

definition registry_twins :: "HardwareRecord list" where
  "registry_twins = [cell_A, cell_A_twin, cell_C]"

definition id_only_document :: json where
  "id_only_document = JArr [JObj [(''id'', JStr ''cell-x'')]]"

text \<open>
  A value for the parameter of \<open>pd_json_normalize\<close> in the examples, none of which has a
  list with an element that is not a dict.
\<close>

definition any_frame_of_mixed_list :: "json list \<Rightarrow> py_error + (string \<times> json) list DataFrame" where
  "any_frame_of_mixed_list xs = Inl NotImplementedError"

definition no_criteria :: FilterCriteria where
  "no_criteria = \<lparr>selected_techniques = [], selected_instruments = [], digital_twin_only = False,
     high_temp_only = False, pressure_control_only = False\<rparr>"

definition only_XRD :: FilterCriteria where
  "only_XRD = no_criteria\<lparr>selected_techniques := [''XRD'']\<rparr>"

definition only_SANS :: FilterCriteria where
  "only_SANS = no_criteria\<lparr>selected_techniques := [''SANS'']\<rparr>"

definition XRD_and_hot :: FilterCriteria where
  "XRD_and_hot = only_XRD\<lparr>high_temp_only := True\<rparr>"

definition twin_only :: FilterCriteria where
  "twin_only = no_criteria\<lparr>digital_twin_only := True\<rparr>"

section \<open>Properties\<close>

subsection \<open>Columns of a registry's frame\<close>

lemma keys_to_json:
  "map fst (normalise_json_ordered (to_json r)) =
     [''id'', ''name'', ''type'', ''compatibility.techniques'', ''compatibility.instruments'',
      ''digital_twin.cad_available'']
     @ (if max_temp_c r = None then [] else [''specifications.operating_limits.max_temp_c''])
     @ (if pressure_control r = None then [] else [''specifications.operating_limits.pressure_control''])
     @ (if primary_email r = None then [] else [''contact_info.primary_email''])
     @ (if limitations_3r r = None then [] else [''limitations_3r.reliability'', ''limitations_3r.representativeness'', ''limitations_3r.reproducibility''])"
  by (cases "max_temp_c r"; cases "pressure_control r"; cases "primary_email r"; cases "limitations_3r r")
     (simp_all add: normalise_json_ordered_def to_json_def optional_item_def str_array_def new_key_def split: prod.splits)

lemma set_first_seen: "set (first_seen xs) = set xs"
  by (simp add: first_seen_def)

lemma columns_registry_frame:
  "col \<in> set (columns (registry_frame data)) \<longleftrightarrow>
     (\<exists>r \<in> set data. col \<in> set (map fst (normalise_json_ordered (to_json r))))"
  by (auto simp: registry_frame_def json_normalize_def Let_def set_first_seen)

lemma rows_registry_frame: "rows (registry_frame data) = data"
  by (simp add: registry_frame_def)

lemma id_key: "''id'' \<in> set (map fst (normalise_json_ordered (to_json r)))"
  unfolding keys_to_json by simp

lemma name_key: "''name'' \<in> set (map fst (normalise_json_ordered (to_json r)))"
  unfolding keys_to_json by simp

lemma techniques_key:
  "''compatibility.techniques'' \<in> set (map fst (normalise_json_ordered (to_json r)))"
  unfolding keys_to_json by simp

lemma instruments_key:
  "''compatibility.instruments'' \<in> set (map fst (normalise_json_ordered (to_json r)))"
  unfolding keys_to_json by simp

lemma cad_key:
  "''digital_twin.cad_available'' \<in> set (map fst (normalise_json_ordered (to_json r)))"
  unfolding keys_to_json by simp

lemma pressure_key:
  "''specifications.operating_limits.pressure_control''
     \<in> set (map fst (normalise_json_ordered (to_json r))) \<longleftrightarrow> pressure_control r \<noteq> None"
  unfolding keys_to_json by simp

lemma max_temp_key:
  "''specifications.operating_limits.max_temp_c''
     \<in> set (map fst (normalise_json_ordered (to_json r))) \<longleftrightarrow> max_temp_c r \<noteq> None"
  unfolding keys_to_json by simp

lemma required_columns:
  "''id'' \<in> set (columns (registry_frame data)) \<longleftrightarrow> data \<noteq> []"
  "''name'' \<in> set (columns (registry_frame data)) \<longleftrightarrow> data \<noteq> []"
  "''compatibility.techniques'' \<in> set (columns (registry_frame data)) \<longleftrightarrow> data \<noteq> []"
  "''compatibility.instruments'' \<in> set (columns (registry_frame data)) \<longleftrightarrow> data \<noteq> []"
  "''digital_twin.cad_available'' \<in> set (columns (registry_frame data)) \<longleftrightarrow> data \<noteq> []"
proof -
  have ne: "(\<exists>r \<in> set data. True) \<longleftrightarrow> data \<noteq> []"
    by (cases data) auto
  show "''id'' \<in> set (columns (registry_frame data)) \<longleftrightarrow> data \<noteq> []"
    unfolding columns_registry_frame by (simp only: id_key ne)
  show "''name'' \<in> set (columns (registry_frame data)) \<longleftrightarrow> data \<noteq> []"
    unfolding columns_registry_frame by (simp only: name_key ne)
  show "''compatibility.techniques'' \<in> set (columns (registry_frame data)) \<longleftrightarrow> data \<noteq> []"
    unfolding columns_registry_frame by (simp only: techniques_key ne)
  show "''compatibility.instruments'' \<in> set (columns (registry_frame data)) \<longleftrightarrow> data \<noteq> []"
    unfolding columns_registry_frame by (simp only: instruments_key ne)
  show "''digital_twin.cad_available'' \<in> set (columns (registry_frame data)) \<longleftrightarrow> data \<noteq> []"
    unfolding columns_registry_frame by (simp only: cad_key ne)
qed

lemma pressure_column:
  "''specifications.operating_limits.pressure_control'' \<in> set (columns (registry_frame data))
     \<longleftrightarrow> (\<exists>r \<in> set data. pressure_control r \<noteq> None)"
  unfolding columns_registry_frame by (simp only: pressure_key)

lemma max_temp_column:
  "''specifications.operating_limits.max_temp_c'' \<in> set (columns (registry_frame data))
     \<longleftrightarrow> (\<exists>r \<in> set data. max_temp_c r \<noteq> None)"
  unfolding columns_registry_frame by (simp only: max_temp_key)

lemma boolean_index_map:
  "boolean_index df (map p (rows df)) = df\<lparr>rows := filter p (rows df)\<rparr>"
proof -
  have "map fst (filter snd (zip xs (map p xs))) = filter p xs" for xs :: "'a list"
    by (induction xs) auto
  then show ?thesis by (simp add: boolean_index_def)
qed

lemma any_in_iff: "any_in selected x \<longleftrightarrow> set x \<inter> set selected \<noteq> {}"
  by (auto simp: any_in_def list_ex_iff)

lemma then_do_Inr: "then_do m f = Inr y \<longleftrightarrow> (\<exists>x. m = Inr x \<and> f x = Inr y)"
  by (cases m) simp_all

lemma technique_step_eq:
  "technique_step c df =
     (if selected_techniques c = [] then Inr df
      else if ''compatibility.techniques'' \<in> set (columns df)
        then Inr (df\<lparr>rows := filter (spec_technique_match c) (rows df)\<rparr>)
        else Inl (KeyError ''compatibility.techniques''))"
proof -
  have "map (any_in (selected_techniques c)) (map techniques (rows df))
          = map (\<lambda>r. any_in (selected_techniques c) (techniques r)) (rows df)"
    by simp
  moreover have "selected_techniques c \<noteq> [] \<Longrightarrow>
      (\<lambda>r. any_in (selected_techniques c) (techniques r)) = spec_technique_match c"
    by (simp add: fun_eq_iff any_in_iff spec_technique_match_def)
  ultimately show ?thesis
    by (simp add: technique_step_def series_def boolean_index_map del: map_map)
qed

lemma instrument_step_eq:
  "instrument_step c df =
     (if selected_instruments c = [] then Inr df
      else if ''compatibility.instruments'' \<in> set (columns df)
        then Inr (df\<lparr>rows := filter (spec_instrument_match c) (rows df)\<rparr>)
        else Inl (KeyError ''compatibility.instruments''))"
proof -
  have "map (any_in (selected_instruments c)) (map instruments (rows df))
          = map (\<lambda>r. any_in (selected_instruments c) (instruments r)) (rows df)"
    by simp
  moreover have "selected_instruments c \<noteq> [] \<Longrightarrow>
      (\<lambda>r. any_in (selected_instruments c) (instruments r)) = spec_instrument_match c"
    by (simp add: fun_eq_iff any_in_iff spec_instrument_match_def)
  ultimately show ?thesis
    by (simp add: instrument_step_def series_def boolean_index_map del: map_map)
qed

lemma digital_twin_step_eq:
  "digital_twin_step c df =
     (if \<not> digital_twin_only c then Inr df
      else if ''digital_twin.cad_available'' \<in> set (columns df)
        then Inr (df\<lparr>rows := filter (spec_digital_twin_match c) (rows df)\<rparr>)
        else Inl (KeyError ''digital_twin.cad_available''))"
proof -
  have "map (\<lambda>v. v = True) (map cad_available (rows df)) = map cad_available (rows df)"
    by simp
  moreover have "digital_twin_only c \<Longrightarrow> cad_available = spec_digital_twin_match c"
    by (simp add: fun_eq_iff spec_digital_twin_match_def)
  ultimately show ?thesis
    by (simp add: digital_twin_step_def series_def boolean_index_map del: map_map)
qed

lemma pressure_step_eq:
  "pressure_step c df =
     (if \<not> pressure_control_only c then Inr df
      else if ''specifications.operating_limits.pressure_control'' \<in> set (columns df)
        then Inr (df\<lparr>rows := filter (spec_pressure_match c) (rows df)\<rparr>)
        else Inl (KeyError ''specifications.operating_limits.pressure_control''))"
proof -
  have "map (\<lambda>v. v = Some True) (map pressure_control (rows df))
          = map (\<lambda>r. pressure_control r = Some True) (rows df)"
    by simp
  moreover have "pressure_control_only c \<Longrightarrow>
      (\<lambda>r. pressure_control r = Some True) = spec_pressure_match c"
    by (auto simp: fun_eq_iff spec_pressure_match_def pressure_control_or_false_def
          split: option.splits)
  ultimately show ?thesis
    by (simp add: pressure_step_def series_def boolean_index_map del: map_map)
qed

lemma high_temp_step_eq:
  "high_temp_step c df =
     (if \<not> high_temp_only c then Inr df
      else if ''specifications.operating_limits.max_temp_c'' \<in> set (columns df)
        then Inr (df\<lparr>rows := filter (spec_high_temp_match c) (rows df)\<rparr>)
        else Inl (KeyError ''specifications.operating_limits.max_temp_c''))"
proof -
  have "map (\<lambda>t. t \<ge> 100) (fillna 25 (map max_temp_c (rows df)))
          = map (\<lambda>r. max_temp_or_default r \<ge> 100) (rows df)"
    by (simp add: fillna_def max_temp_or_default_def)
  moreover have "high_temp_only c \<Longrightarrow>
      (\<lambda>r. max_temp_or_default r \<ge> 100) = spec_high_temp_match c"
    by (simp add: fun_eq_iff spec_high_temp_match_def)
  ultimately show ?thesis
    by (simp add: high_temp_step_def series_def boolean_index_map del: map_map)
qed

lemma step_results:
  "technique_step c df = Inr out \<Longrightarrow>
     out = df\<lparr>rows := filter (spec_technique_match c) (rows df)\<rparr>"
  "instrument_step c df = Inr out \<Longrightarrow>
     out = df\<lparr>rows := filter (spec_instrument_match c) (rows df)\<rparr>"
  "digital_twin_step c df = Inr out \<Longrightarrow>
     out = df\<lparr>rows := filter (spec_digital_twin_match c) (rows df)\<rparr>"
  "pressure_step c df = Inr out \<Longrightarrow>
     out = df\<lparr>rows := filter (spec_pressure_match c) (rows df)\<rparr>"
  "high_temp_step c df = Inr out \<Longrightarrow>
     out = df\<lparr>rows := filter (spec_high_temp_match c) (rows df)\<rparr>"
  by (auto simp: technique_step_eq instrument_step_eq digital_twin_step_eq pressure_step_eq
        high_temp_step_eq spec_technique_match_def spec_instrument_match_def
        spec_digital_twin_match_def spec_pressure_match_def spec_high_temp_match_def
        split: if_splits)

lemma filter_engine_result:
  assumes "filter_engine df c = Inr out"
  shows "out = df\<lparr>rows := filter (spec_matches c) (rows df)\<rparr>"
proof -
  from assms obtain d1 d2 d3 d4 where
    s: "technique_step c df = Inr d1" "instrument_step c d1 = Inr d2"
       "digital_twin_step c d2 = Inr d3" "pressure_step c d3 = Inr d4"
       "high_temp_step c d4 = Inr out"
    unfolding filter_engine_def then_do_Inr by blast
  have "(\<lambda>r. (((spec_technique_match c r \<and> spec_instrument_match c r)
            \<and> spec_digital_twin_match c r) \<and> spec_pressure_match c r)
            \<and> spec_high_temp_match c r) = spec_matches c"
    by (auto simp: fun_eq_iff spec_matches_def)
  with step_results(1)[OF s(1)] step_results(2)[OF s(2)] step_results(3)[OF s(3)]
    step_results(4)[OF s(4)] step_results(5)[OF s(5)]
  show ?thesis by simp
qed

lemma filter_engine_returns:
  "(\<exists>out. filter_engine df c = Inr out) \<longleftrightarrow> set (needed_columns c) \<subseteq> set (columns df)"
  by (simp add: filter_engine_def technique_step_eq instrument_step_eq digital_twin_step_eq
        pressure_step_eq high_temp_step_eq needed_columns_def)

lemma subseq_filter: "subseq (filter P xs) xs"
  by (induction xs) auto

lemma run_only_XRD:
  "filter_engine (registry_frame registry_ABC) only_XRD
     = Inr ((registry_frame registry_ABC)\<lparr>rows := [cell_A, cell_C]\<rparr>)"
  by code_simp

subsection \<open>The filter engine\<close>

text \<open>
  Claim C1. The claim is about the technique step of lines 82 and 83, so about a run in
  which the technique selection S is the criterion: S is not empty, no instrument is
  selected and the three flags are false. Then, for every frame, whenever the filter engine
  returns, every record of its output has a technique in S and every record of the input
  that is missing from the output has no technique in S (the last part of the statement).
  The first part holds whatever the other four criteria are; with some of them active, a
  record that is missing from the output has no technique in S or is rejected by one of
  them (the second part).
\<close>

theorem technique_selection_filter:
  "selected_techniques c \<noteq> [] \<and> filter_engine df c = Inr out \<longrightarrow>
     (\<forall>r \<in> set (rows out). set (techniques r) \<inter> set (selected_techniques c) \<noteq> {})
     \<and> (\<forall>r \<in> set (rows df). r \<notin> set (rows out) \<longrightarrow>
           set (techniques r) \<inter> set (selected_techniques c) = {}
           \<or> \<not> (spec_instrument_match c r \<and> spec_digital_twin_match c r
                  \<and> spec_pressure_match c r \<and> spec_high_temp_match c r))
     \<and> (selected_instruments c = [] \<and> \<not> digital_twin_only c \<and> \<not> pressure_control_only c
          \<and> \<not> high_temp_only c \<longrightarrow>
          (\<forall>r \<in> set (rows df). r \<notin> set (rows out) \<longrightarrow>
             set (techniques r) \<inter> set (selected_techniques c) = {}))"
proof (intro impI, elim conjE)
  assume sel: "selected_techniques c \<noteq> []" and run: "filter_engine df c = Inr out"
  have out: "rows out = filter (spec_matches c) (rows df)"
    using filter_engine_result[OF run] by simp
  have tm: "spec_technique_match c r \<longleftrightarrow>
      set (techniques r) \<inter> set (selected_techniques c) \<noteq> {}" for r
    using sel by (simp add: spec_technique_match_def)
  have a: "\<forall>r \<in> set (rows out). set (techniques r) \<inter> set (selected_techniques c) \<noteq> {}"
    unfolding out using tm by (simp add: spec_matches_def)
  have b: "\<forall>r \<in> set (rows df). r \<notin> set (rows out) \<longrightarrow>
           set (techniques r) \<inter> set (selected_techniques c) = {}
           \<or> \<not> (spec_instrument_match c r \<and> spec_digital_twin_match c r
                  \<and> spec_pressure_match c r \<and> spec_high_temp_match c r)"
    unfolding out using tm by (auto simp: spec_matches_def)
  have c: "selected_instruments c = [] \<and> \<not> digital_twin_only c \<and> \<not> pressure_control_only c
          \<and> \<not> high_temp_only c \<longrightarrow>
          (\<forall>r \<in> set (rows df). r \<notin> set (rows out) \<longrightarrow>
             set (techniques r) \<inter> set (selected_techniques c) = {})"
    unfolding out using tm
    by (auto simp: spec_matches_def spec_instrument_match_def spec_digital_twin_match_def
          spec_pressure_match_def spec_high_temp_match_def)
  from a b c show "(\<forall>r \<in> set (rows out). set (techniques r) \<inter> set (selected_techniques c) \<noteq> {})
     \<and> (\<forall>r \<in> set (rows df). r \<notin> set (rows out) \<longrightarrow>
           set (techniques r) \<inter> set (selected_techniques c) = {}
           \<or> \<not> (spec_instrument_match c r \<and> spec_digital_twin_match c r
                  \<and> spec_pressure_match c r \<and> spec_high_temp_match c r))
     \<and> (selected_instruments c = [] \<and> \<not> digital_twin_only c \<and> \<not> pressure_control_only c
          \<and> \<not> high_temp_only c \<longrightarrow>
          (\<forall>r \<in> set (rows df). r \<notin> set (rows out) \<longrightarrow>
             set (techniques r) \<inter> set (selected_techniques c) = {}))"
    by blast
qed

text \<open>The claim at the scenario's registry, with XRD as the only criterion.\<close>

theorem technique_selection_filter_witness:
  "selected_techniques only_XRD \<noteq> []
   \<and> filter_engine (registry_frame registry_ABC) only_XRD
       = Inr ((registry_frame registry_ABC)\<lparr>rows := [cell_A, cell_C]\<rparr>)
   \<and> set (techniques cell_A) \<inter> set (selected_techniques only_XRD) \<noteq> {}
   \<and> set (techniques cell_C) \<inter> set (selected_techniques only_XRD) \<noteq> {}
   \<and> cell_B \<in> set (rows (registry_frame registry_ABC))
   \<and> cell_B \<notin> set [cell_A, cell_C]
   \<and> set (techniques cell_B) \<inter> set (selected_techniques only_XRD) = {}"
proof -
  have sel: "selected_techniques only_XRD \<noteq> []"
    by (simp add: only_XRD_def)
  have flags: "selected_instruments only_XRD = [] \<and> \<not> digital_twin_only only_XRD
      \<and> \<not> pressure_control_only only_XRD \<and> \<not> high_temp_only only_XRD"
    by (simp add: only_XRD_def no_criteria_def)
  have B: "cell_B \<in> set (rows (registry_frame registry_ABC))" "cell_B \<notin> set [cell_A, cell_C]"
    by (simp_all add: rows_registry_frame registry_ABC_def cell_A_def cell_B_def cell_C_def)
  from technique_selection_filter[of only_XRD "registry_frame registry_ABC"
      "(registry_frame registry_ABC)\<lparr>rows := [cell_A, cell_C]\<rparr>"] sel run_only_XRD flags B
  show ?thesis by simp
qed

text \<open>
  Claim C2. With no technique selected, no instrument selected and the three flags false,
  the filter engine returns the full frame, whatever the frame is.
\<close>

theorem empty_criteria_return_full_frame:
  "filter_engine df \<lparr>selected_techniques = [], selected_instruments = [],
      digital_twin_only = False, high_temp_only = False, pressure_control_only = False\<rparr> = Inr df"
  by (simp add: filter_engine_def technique_step_def instrument_step_def digital_twin_step_def
        pressure_step_def high_temp_step_def)

theorem empty_criteria_return_full_frame_witness:
  "filter_engine (registry_frame registry_ABC) no_criteria = Inr (registry_frame registry_ABC)
   \<and> rows (registry_frame registry_ABC) = [cell_A, cell_B, cell_C]
   \<and> filter_engine (registry_frame []) no_criteria = Inr (registry_frame [])"
  using empty_criteria_return_full_frame[of "registry_frame registry_ABC"]
    empty_criteria_return_full_frame[of "registry_frame []"]
  by (simp add: no_criteria_def rows_registry_frame registry_ABC_def)

text \<open>
  Claim C3. Whenever the filter engine returns, its rows are the rows of the input that
  all five criteria accept, in their original order, so a sublist of the input. A step
  whose criterion is empty or false returns the frame as it is and accepts every record.
  The engine returns only if the columns read by the active steps exist, and with
  selections drawn from the frame's own values it returns whenever they do.
\<close>

theorem filter_engine_is_conjunction_of_steps:
  "(filter_engine df c = Inr out \<longrightarrow>
      rows out = filter (spec_matches c) (rows df)
      \<and> subseq (rows out) (rows df)
      \<and> set (rows out) \<subseteq> set (rows df)
      \<and> set (needed_columns c) \<subseteq> set (columns df))
   \<and> (selected_techniques c = [] \<longrightarrow> technique_step c df = Inr df \<and> spec_technique_match c r)
   \<and> (selected_instruments c = [] \<longrightarrow> instrument_step c df = Inr df \<and> spec_instrument_match c r)
   \<and> (\<not> digital_twin_only c \<longrightarrow> digital_twin_step c df = Inr df \<and> spec_digital_twin_match c r)
   \<and> (\<not> pressure_control_only c \<longrightarrow> pressure_step c df = Inr df \<and> spec_pressure_match c r)
   \<and> (\<not> high_temp_only c \<longrightarrow> high_temp_step c df = Inr df \<and> spec_high_temp_match c r)
   \<and> (selections_offered df c \<and> set (needed_columns c) \<subseteq> set (columns df) \<longrightarrow>
        filter_engine df c = Inr (df\<lparr>rows := filter (spec_matches c) (rows df)\<rparr>))"
proof -
  have result: "filter_engine df c = Inr out \<longrightarrow>
      rows out = filter (spec_matches c) (rows df)
      \<and> subseq (rows out) (rows df)
      \<and> set (rows out) \<subseteq> set (rows df)
      \<and> set (needed_columns c) \<subseteq> set (columns df)"
  proof
    assume run: "filter_engine df c = Inr out"
    then have "out = df\<lparr>rows := filter (spec_matches c) (rows df)\<rparr>"
      by (rule filter_engine_result)
    then have "rows out = filter (spec_matches c) (rows df)"
      by simp
    moreover from run have "set (needed_columns c) \<subseteq> set (columns df)"
      using filter_engine_returns by blast
    ultimately show "rows out = filter (spec_matches c) (rows df)
      \<and> subseq (rows out) (rows df) \<and> set (rows out) \<subseteq> set (rows df)
      \<and> set (needed_columns c) \<subseteq> set (columns df)"
      by (simp add: subseq_filter)
  qed
  have skip:
    "selected_techniques c = [] \<longrightarrow> technique_step c df = Inr df \<and> spec_technique_match c r"
    "selected_instruments c = [] \<longrightarrow> instrument_step c df = Inr df \<and> spec_instrument_match c r"
    "\<not> digital_twin_only c \<longrightarrow> digital_twin_step c df = Inr df \<and> spec_digital_twin_match c r"
    "\<not> pressure_control_only c \<longrightarrow> pressure_step c df = Inr df \<and> spec_pressure_match c r"
    "\<not> high_temp_only c \<longrightarrow> high_temp_step c df = Inr df \<and> spec_high_temp_match c r"
    by (simp_all add: technique_step_def instrument_step_def digital_twin_step_def
          pressure_step_def high_temp_step_def spec_technique_match_def
          spec_instrument_match_def spec_digital_twin_match_def spec_pressure_match_def
          spec_high_temp_match_def)
  have total: "selections_offered df c \<and> set (needed_columns c) \<subseteq> set (columns df) \<longrightarrow>
        filter_engine df c = Inr (df\<lparr>rows := filter (spec_matches c) (rows df)\<rparr>)"
  proof
    assume "selections_offered df c \<and> set (needed_columns c) \<subseteq> set (columns df)"
    then obtain res where "filter_engine df c = Inr res"
      using filter_engine_returns by blast
    moreover from this have "res = df\<lparr>rows := filter (spec_matches c) (rows df)\<rparr>"
      by (rule filter_engine_result)
    ultimately show "filter_engine df c = Inr (df\<lparr>rows := filter (spec_matches c) (rows df)\<rparr>)"
      by simp
  qed
  from result skip total show ?thesis by blast
qed

lemma run_XRD_and_hot:
  "filter_engine (registry_frame registry_ABC) XRD_and_hot
     = Inr ((registry_frame registry_ABC)\<lparr>rows := [cell_A]\<rparr>)"
  by code_simp

text \<open>Claim C3 at the scenario's registry: XRD and the high temperature flag leave cell A.\<close>

theorem filter_engine_is_conjunction_of_steps_witness:
  "filter_engine (registry_frame registry_ABC) XRD_and_hot
     = Inr ((registry_frame registry_ABC)\<lparr>rows := [cell_A]\<rparr>)
   \<and> filter (spec_matches XRD_and_hot) [cell_A, cell_B, cell_C] = [cell_A]
   \<and> subseq [cell_A] [cell_A, cell_B, cell_C]
   \<and> selected_instruments XRD_and_hot = []
   \<and> instrument_step XRD_and_hot (registry_frame registry_ABC) = Inr (registry_frame registry_ABC)
   \<and> spec_instrument_match XRD_and_hot cell_B
   \<and> \<not> digital_twin_only XRD_and_hot
   \<and> digital_twin_step XRD_and_hot (registry_frame registry_ABC) = Inr (registry_frame registry_ABC)
   \<and> \<not> pressure_control_only XRD_and_hot
   \<and> pressure_step XRD_and_hot (registry_frame registry_ABC) = Inr (registry_frame registry_ABC)
   \<and> selections_offered (registry_frame registry_ABC) XRD_and_hot
   \<and> set (needed_columns XRD_and_hot) \<subseteq> set (columns (registry_frame registry_ABC))"
proof -
  have crit: "selected_instruments XRD_and_hot = []" "\<not> digital_twin_only XRD_and_hot"
    "\<not> pressure_control_only XRD_and_hot"
    by (simp_all add: XRD_and_hot_def only_XRD_def no_criteria_def)
  have offered: "selections_offered (registry_frame registry_ABC) XRD_and_hot"
    by code_simp
  have cols: "set (needed_columns XRD_and_hot) \<subseteq> set (columns (registry_frame registry_ABC))"
    by code_simp
  have rows: "rows (registry_frame registry_ABC) = [cell_A, cell_B, cell_C]"
    by (simp add: rows_registry_frame registry_ABC_def)
  note inst = filter_engine_is_conjunction_of_steps[of "registry_frame registry_ABC" XRD_and_hot
      "(registry_frame registry_ABC)\<lparr>rows := [cell_A]\<rparr>" cell_B]
  from inst run_XRD_and_hot
  have "rows ((registry_frame registry_ABC)\<lparr>rows := [cell_A]\<rparr>)
          = filter (spec_matches XRD_and_hot) (rows (registry_frame registry_ABC))"
    and "subseq (rows ((registry_frame registry_ABC)\<lparr>rows := [cell_A]\<rparr>))
          (rows (registry_frame registry_ABC))"
    by blast+
  then have kept: "filter (spec_matches XRD_and_hot) [cell_A, cell_B, cell_C] = [cell_A]"
    and sub: "subseq [cell_A] [cell_A, cell_B, cell_C]"
    unfolding rows by simp_all
  from inst crit
  have steps: "instrument_step XRD_and_hot (registry_frame registry_ABC)
        = Inr (registry_frame registry_ABC)"
      "spec_instrument_match XRD_and_hot cell_B"
      "digital_twin_step XRD_and_hot (registry_frame registry_ABC)
        = Inr (registry_frame registry_ABC)"
      "pressure_step XRD_and_hot (registry_frame registry_ABC)
        = Inr (registry_frame registry_ABC)"
    by blast+
  from run_XRD_and_hot kept sub crit steps offered cols show ?thesis
    by blast
qed

text \<open>
  Claim C4 fails on the code when no record of the registry carries the optional field:
  json_normalize then creates no column for it, and the step that reads the column
  raises KeyError instead of treating the records as 25 degrees or as without pressure
  control. So it is for the pressure flag on the registry of cells A and B, and for the
  high temperature flag on the registry of cell B alone; the cards' path through
  \<open>dict.get\<close> does apply the defaults to cell B. On the scenario's registry, where cell C
  carries a pressure control and cells A and C a temperature limit, the same flags drop
  cell B as the claim says.
\<close>

theorem absent_optional_column_raises:
  "filter_engine (registry_frame [cell_A, cell_B]) (no_criteria\<lparr>pressure_control_only := True\<rparr>)
     = Inl (KeyError ''specifications.operating_limits.pressure_control'')
   \<and> filter_engine (registry_frame [cell_B]) (no_criteria\<lparr>high_temp_only := True\<rparr>)
     = Inl (KeyError ''specifications.operating_limits.max_temp_c'')
   \<and> key_specifications cell_B = (25, False, False)
   \<and> filter_engine (registry_frame registry_ABC) (no_criteria\<lparr>pressure_control_only := True\<rparr>)
     = Inr ((registry_frame registry_ABC)\<lparr>rows := [cell_C]\<rparr>)
   \<and> filter_engine (registry_frame registry_ABC) (no_criteria\<lparr>high_temp_only := True\<rparr>)
     = Inr ((registry_frame registry_ABC)\<lparr>rows := [cell_A]\<rparr>)"
  by code_simp

text \<open>
  Where the column exists (some record carries the field), the defaults do apply: a
  record without a temperature limit or without pressure control is dropped by the
  flag's step, and a record kept by the high temperature step has a limit of at least 100.
\<close>

lemma optional_defaults_when_columns_exist:
  assumes "filter_engine (registry_frame data) c = Inr out" and "r \<in> set data"
  shows "high_temp_only c \<Longrightarrow> max_temp_c r = None \<Longrightarrow> r \<notin> set (rows out)"
    and "high_temp_only c \<Longrightarrow> max_temp_c r = Some t \<Longrightarrow> r \<in> set (rows out) \<Longrightarrow> t \<ge> 100"
    and "pressure_control_only c \<Longrightarrow> pressure_control r = None \<Longrightarrow> r \<notin> set (rows out)"
  using filter_engine_result[OF assms(1)]
  by (auto simp: spec_matches_def spec_high_temp_match_def spec_pressure_match_def
        max_temp_or_default_def pressure_control_or_false_def)

subsection \<open>The compatibility matrix and the download\<close>

lemma filter_engine_columns:
  "filter_engine df c = Inr out \<Longrightarrow> columns out = columns df"
  by (drule filter_engine_result) simp

lemma filter_engine_rows:
  "filter_engine df c = Inr out \<Longrightarrow> rows out = filter (spec_matches c) (rows df)"
  by (drule filter_engine_result) simp

lemma fold_update_map_of:
  "map_of (fold (\<lambda>k row. AList.update k (f k) row) ks init) k
     = (if k \<in> set ks then Some (f k) else map_of init k)"
  by (induction ks arbitrary: init) (auto simp: update_conv')

lemma fold_update_keys:
  "fst ` set (fold (\<lambda>k row. AList.update k (f k) row) ks init) = set ks \<union> fst ` set init"
  by (induction ks arbitrary: init) (auto simp: dom_update)

lemma matrix_row_cell:
  "tech \<in> set all_techs \<Longrightarrow>
     map_of (matrix_row all_techs entry) tech = Some (Flag (tech \<in> set (techniques entry)))"
  by (simp add: matrix_row_def fold_update_map_of)

lemma matrix_row_label:
  "''Cell'' \<notin> set all_techs \<Longrightarrow>
     map_of (matrix_row all_techs entry) ''Cell'' = Some (Label (name entry))"
  by (simp add: matrix_row_def fold_update_map_of)

lemma matrix_row_keys:
  "fst ` set (matrix_row all_techs entry) = insert ''Cell'' (set all_techs)"
  by (simp add: matrix_row_def fold_update_keys)

lemma all_techniques_result:
  "all_techniques df = Inr all_techs \<Longrightarrow>
     set all_techs = (\<Union>r \<in> set (rows df). set (techniques r)) \<and> sorted all_techs
     \<and> distinct all_techs"
  by (auto simp: all_techniques_def series_def split: if_splits)

lemma all_techniques_returns:
  "(\<exists>all_techs. all_techniques (registry_frame data) = Inr all_techs) \<longleftrightarrow> data \<noteq> []"
  by (simp add: all_techniques_def series_def required_columns)

lemma technique_matrix_result:
  "technique_matrix raw_json filtered_df all_techs = Inr m \<Longrightarrow>
     m = map (matrix_row all_techs) (matrix_entries raw_json filtered_df)"
  by (auto simp: technique_matrix_def series_def matrix_entries_def split: if_splits)

lemma technique_matrix_returns:
  assumes "filter_engine (registry_frame data) c = Inr filtered_df"
  shows "\<exists>m. technique_matrix data filtered_df all_techs = Inr m"
proof (cases "data = []")
  case True
  then show ?thesis by (simp add: technique_matrix_def)
next
  case False
  then have "''name'' \<in> set (columns filtered_df)"
    using filter_engine_columns[OF assms] by (simp add: required_columns)
  then show ?thesis by (simp add: technique_matrix_def series_def)
qed

lemma download_result:
  "filtered_json_download raw_json filtered_df = Inr entries \<Longrightarrow>
     entries = filter (\<lambda>entry. rec_id entry \<in> set (map rec_id (rows filtered_df))) raw_json"
  by (auto simp: filtered_json_download_def series_def split: if_splits)

lemma filter_by_unique_id:
  assumes "distinct (map rec_id data)"
  shows "filter (\<lambda>entry. rec_id entry \<in> set (map rec_id (filter P data))) data = filter P data"
proof (rule filter_cong[OF refl])
  fix e assume e: "e \<in> set data"
  have "inj_on rec_id (set data)"
    using assms by (simp add: distinct_map)
  then have "rec_id e = rec_id e' \<Longrightarrow> e' \<in> set data \<Longrightarrow> e = e'" for e'
    using e by (auto dest: inj_onD)
  then show "(rec_id e \<in> set (map rec_id (filter P data))) = P e"
    using e by auto
qed

lemma columns_subset_of_sublist:
  assumes "set entries \<subseteq> set data"
  shows "set (columns (registry_frame entries)) \<subseteq> set (columns (registry_frame data))"
proof
  fix col assume "col \<in> set (columns (registry_frame entries))"
  then obtain r where "r \<in> set entries"
    "col \<in> set (map fst (normalise_json_ordered (to_json r)))"
    unfolding columns_registry_frame by blast
  with assms show "col \<in> set (columns (registry_frame data))"
    unfolding columns_registry_frame by blast
qed

lemma rows_json_normalize: "rows (json_normalize data) = map normalise_json_ordered data"
  by (simp add: json_normalize_def Let_def)

lemma pd_json_normalize_list_of_dicts:
  "pd_json_normalize frame_of_mixed_list (JArr (map JObj objects)) = Inr (json_normalize objects)"
proof -
  have "list_all is_dict (map JObj objects)"
    by (induction objects) simp_all
  moreover have "map items_of (map JObj objects) = objects"
    by (induction objects) simp_all
  ultimately show ?thesis
    by (simp add: pd_json_normalize_def)
qed

lemma load_registry_list_of_dicts:
  "load_registry frame_of_mixed_list (Document (JArr (map JObj objects)))
     = Inr (json_normalize objects, JArr (map JObj objects))"
  by (simp add: load_registry_def try_block_def pd_json_normalize_list_of_dicts)

lemma registry_document_objects: "registry_document data = JArr (map JObj (map to_json data))"
  by (simp add: registry_document_def)

lemma load_registry_document:
  "load_registry frame_of_mixed_list (Document (registry_document data))
     = Inr (json_normalize (map to_json data), registry_document data)"
  unfolding registry_document_objects by (rule load_registry_list_of_dicts)

text \<open>
  Claim C5, as amended. For a registry with unique ids, whenever the filter engine returns
  a frame and the download is built from it, the downloaded entries are exactly the
  registry's entries whose id is in the filtered frame; they are the filtered frame's
  records themselves, unchanged and in the registry's order. Loading the downloaded
  array again succeeds and gives back the same rows, those of the filtered frame, under
  columns that all belong to the filtered frame. With selections drawn from the frame's
  values, the download is built whenever the registry has an entry.
\<close>

theorem export_round_trip:
  assumes "distinct (map rec_id data)"
    and "filter_engine (registry_frame data) c = Inr filtered_df"
  shows "(selections_offered (registry_frame data) c \<and> data \<noteq> [] \<longrightarrow>
          (\<exists>entries. filtered_json_download data filtered_df = Inr entries))
     \<and> (filtered_json_download data filtered_df = Inr entries \<longrightarrow>
          entries = filter (\<lambda>entry. rec_id entry \<in> rec_id ` set (rows filtered_df)) data
          \<and> entries = rows filtered_df
          \<and> subseq entries data
          \<and> load_registry frame_of_mixed_list (download_document entries)
               = Inr (json_normalize (map to_json entries), registry_document entries)
          \<and> rows (json_normalize (map to_json entries))
               = map (\<lambda>r. normalise_json_ordered (to_json r)) (rows filtered_df)
          \<and> rows (registry_frame entries) = rows filtered_df
          \<and> set (columns (registry_frame entries)) \<subseteq> set (columns filtered_df))"
proof -
  have fdf_rows: "rows filtered_df = filter (spec_matches c) data"
    using filter_engine_rows[OF assms(2)] by (simp add: rows_registry_frame)
  have fdf_cols: "columns filtered_df = columns (registry_frame data)"
    by (rule filter_engine_columns[OF assms(2)])
  have returns: "selections_offered (registry_frame data) c \<and> data \<noteq> [] \<longrightarrow>
      (\<exists>entries. filtered_json_download data filtered_df = Inr entries)"
    by (simp add: filtered_json_download_def series_def fdf_cols required_columns)
  have result: "filtered_json_download data filtered_df = Inr entries \<longrightarrow>
          entries = filter (\<lambda>entry. rec_id entry \<in> rec_id ` set (rows filtered_df)) data
          \<and> entries = rows filtered_df
          \<and> subseq entries data
          \<and> load_registry frame_of_mixed_list (download_document entries)
               = Inr (json_normalize (map to_json entries), registry_document entries)
          \<and> rows (json_normalize (map to_json entries))
               = map (\<lambda>r. normalise_json_ordered (to_json r)) (rows filtered_df)
          \<and> rows (registry_frame entries) = rows filtered_df
          \<and> set (columns (registry_frame entries)) \<subseteq> set (columns filtered_df)"
  proof
    assume "filtered_json_download data filtered_df = Inr entries"
    then have sel: "entries
        = filter (\<lambda>entry. rec_id entry \<in> set (map rec_id (rows filtered_df))) data"
      by (rule download_result)
    then have by_id: "entries
        = filter (\<lambda>entry. rec_id entry \<in> rec_id ` set (rows filtered_df)) data"
      by simp
    have same: "entries = rows filtered_df"
      unfolding sel fdf_rows by (rule filter_by_unique_id[OF assms(1)])
    have sub: "subseq entries data"
      unfolding by_id by (rule subseq_filter)
    have load: "load_registry frame_of_mixed_list (download_document entries)
               = Inr (json_normalize (map to_json entries), registry_document entries)"
      unfolding download_document_def by (rule load_registry_document)
    have flat: "rows (json_normalize (map to_json entries))
               = map (\<lambda>r. normalise_json_ordered (to_json r)) (rows filtered_df)"
      unfolding same by (simp add: rows_json_normalize)
    have typed: "rows (registry_frame entries) = rows filtered_df"
      unfolding same by (rule rows_registry_frame)
    have "set entries \<subseteq> set data"
      unfolding by_id by (rule filter_is_subset)
    then have cols: "set (columns (registry_frame entries)) \<subseteq> set (columns filtered_df)"
      unfolding fdf_cols by (rule columns_subset_of_sublist)
    show "entries = filter (\<lambda>entry. rec_id entry \<in> rec_id ` set (rows filtered_df)) data
          \<and> entries = rows filtered_df
          \<and> subseq entries data
          \<and> load_registry frame_of_mixed_list (download_document entries)
               = Inr (json_normalize (map to_json entries), registry_document entries)
          \<and> rows (json_normalize (map to_json entries))
               = map (\<lambda>r. normalise_json_ordered (to_json r)) (rows filtered_df)
          \<and> rows (registry_frame entries) = rows filtered_df
          \<and> set (columns (registry_frame entries)) \<subseteq> set (columns filtered_df)"
      by (intro conjI) (rule by_id same sub load flat typed cols)+
  qed
  show ?thesis
    by (intro conjI) (rule returns result)+
qed

lemma distinct_ids_ABC: "distinct (map rec_id registry_ABC)"
  by code_simp

lemma download_ABC:
  "filtered_json_download registry_ABC ((registry_frame registry_ABC)\<lparr>rows := [cell_A]\<rparr>)
     = Inr [cell_A]"
  by code_simp

text \<open>
  The amended claim at the scenario's registry: XRD and high temperature, so cell A alone.
\<close>

theorem export_round_trip_witness:
  "distinct (map rec_id registry_ABC)
   \<and> filter_engine (registry_frame registry_ABC) XRD_and_hot
       = Inr ((registry_frame registry_ABC)\<lparr>rows := [cell_A]\<rparr>)
   \<and> selections_offered (registry_frame registry_ABC) XRD_and_hot
   \<and> registry_ABC \<noteq> []
   \<and> filtered_json_download registry_ABC ((registry_frame registry_ABC)\<lparr>rows := [cell_A]\<rparr>)
       = Inr [cell_A]
   \<and> load_registry any_frame_of_mixed_list (download_document [cell_A])
       = Inr (json_normalize (map to_json [cell_A]), registry_document [cell_A])
   \<and> rows (registry_frame [cell_A])
       = rows ((registry_frame registry_ABC)\<lparr>rows := [cell_A]\<rparr>)
   \<and> subseq [cell_A] registry_ABC"
proof -
  note c = export_round_trip[OF distinct_ids_ABC run_XRD_and_hot,
      where entries = "[cell_A]" and frame_of_mixed_list = any_frame_of_mixed_list,
      THEN conjunct2, rule_format, OF download_ABC]
  have offered: "selections_offered (registry_frame registry_ABC) XRD_and_hot"
    by code_simp
  have nonempty: "registry_ABC \<noteq> []"
    by (simp add: registry_ABC_def)
  show ?thesis
    by (intro conjI)
      (rule distinct_ids_ABC run_XRD_and_hot download_ABC offered nonempty
         c[THEN conjunct2, THEN conjunct2, THEN conjunct1]
         c[THEN conjunct2, THEN conjunct2, THEN conjunct2, THEN conjunct1]
         c[THEN conjunct2, THEN conjunct2, THEN conjunct2, THEN conjunct2, THEN conjunct2,
           THEN conjunct1])+
qed

text \<open>
  Claim C5 as stated fails on the frame: the reloaded frame has the same rows, but a
  column of an optional key that no exported record carries is not created again. With
  SANS selected only cell B is exported; the filtered frame has the temperature column
  (cell A and cell C carry the key) and the reloaded frame has not, so the high
  temperature step returns no rows on the one and raises KeyError on the other.
\<close>

theorem export_reload_loses_columns:
  "distinct (map rec_id registry_ABC)
   \<and> filter_engine (registry_frame registry_ABC) only_SANS
       = Inr ((registry_frame registry_ABC)\<lparr>rows := [cell_B]\<rparr>)
   \<and> filtered_json_download registry_ABC ((registry_frame registry_ABC)\<lparr>rows := [cell_B]\<rparr>)
       = Inr [cell_B]
   \<and> registry_frame [cell_B] \<noteq> (registry_frame registry_ABC)\<lparr>rows := [cell_B]\<rparr>
   \<and> ''specifications.operating_limits.max_temp_c''
        \<in> set (columns ((registry_frame registry_ABC)\<lparr>rows := [cell_B]\<rparr>))
   \<and> ''specifications.operating_limits.max_temp_c'' \<notin> set (columns (registry_frame [cell_B]))
   \<and> filter_engine ((registry_frame registry_ABC)\<lparr>rows := [cell_B]\<rparr>)
         (no_criteria\<lparr>high_temp_only := True\<rparr>)
       = Inr ((registry_frame registry_ABC)\<lparr>rows := []\<rparr>)
   \<and> filter_engine (registry_frame [cell_B]) (no_criteria\<lparr>high_temp_only := True\<rparr>)
       = Inl (KeyError ''specifications.operating_limits.max_temp_c'')"
  by code_simp

text \<open>
  Claim C6. The technique columns of the matrix are \<open>all_techniques\<close> of the full frame:
  the sorted, duplicate-free list of every technique of every record of the registry,
  whatever the criteria. Every row of the matrix has exactly the key \<open>Cell\<close> and these
  techniques as keys, and the cell of a technique is true exactly when the row's entry
  lists that technique. With selections drawn from the frame's values the matrix is
  built whenever the filter engine returns.
\<close>

theorem matrix_columns_are_all_techniques:
  assumes "all_techniques (registry_frame data) = Inr all_techs"
    and "filter_engine (registry_frame data) c = Inr filtered_df"
  shows "set all_techs = (\<Union>r \<in> set data. set (techniques r))
     \<and> sorted all_techs \<and> distinct all_techs
     \<and> (selections_offered (registry_frame data) c \<longrightarrow>
          (\<exists>m. technique_matrix data filtered_df all_techs = Inr m))
     \<and> (technique_matrix data filtered_df all_techs = Inr m \<longrightarrow>
          m = map (matrix_row all_techs) (matrix_entries data filtered_df)
          \<and> (\<forall>row \<in> set m. fst ` set row = insert ''Cell'' (set all_techs)))
     \<and> (\<forall>tech \<in> set all_techs.
            map_of (matrix_row all_techs entry) tech = Some (Flag (tech \<in> set (techniques entry))))
     \<and> (''Cell'' \<notin> set all_techs \<longrightarrow>
            map_of (matrix_row all_techs entry) ''Cell'' = Some (Label (name entry)))"
proof -
  from all_techniques_result[OF assms(1)]
  have a: "set all_techs = (\<Union>r \<in> set data. set (techniques r))" "sorted all_techs"
    "distinct all_techs"
    by (simp_all add: rows_registry_frame)
  have returns: "selections_offered (registry_frame data) c \<longrightarrow>
      (\<exists>m. technique_matrix data filtered_df all_techs = Inr m)"
    using technique_matrix_returns[OF assms(2)] by (rule impI)
  have result: "technique_matrix data filtered_df all_techs = Inr m \<longrightarrow>
      m = map (matrix_row all_techs) (matrix_entries data filtered_df)
      \<and> (\<forall>row \<in> set m. fst ` set row = insert ''Cell'' (set all_techs))"
  proof
    assume "technique_matrix data filtered_df all_techs = Inr m"
    then have m_eq: "m = map (matrix_row all_techs) (matrix_entries data filtered_df)"
      by (rule technique_matrix_result)
    have "\<forall>row \<in> set m. fst ` set row = insert ''Cell'' (set all_techs)"
      unfolding m_eq by (simp add: matrix_row_keys)
    with m_eq show "m = map (matrix_row all_techs) (matrix_entries data filtered_df)
      \<and> (\<forall>row \<in> set m. fst ` set row = insert ''Cell'' (set all_techs))"
      by (rule conjI)
  qed
  have cells: "\<forall>tech \<in> set all_techs.
      map_of (matrix_row all_techs entry) tech = Some (Flag (tech \<in> set (techniques entry)))"
    by (simp add: matrix_row_cell)
  have label: "''Cell'' \<notin> set all_techs \<longrightarrow>
      map_of (matrix_row all_techs entry) ''Cell'' = Some (Label (name entry))"
    by (simp add: matrix_row_label)
  show ?thesis
    by (intro conjI) (rule a returns result cells label)+
qed

lemma all_techniques_ABC:
  "all_techniques (registry_frame registry_ABC) = Inr [''SANS'', ''XAS'', ''XRD'']"
  by code_simp

lemma matrix_ABC:
  "technique_matrix registry_ABC ((registry_frame registry_ABC)\<lparr>rows := [cell_A, cell_C]\<rparr>)
      [''SANS'', ''XAS'', ''XRD'']
   = Inr [[(''Cell'', Label ''A''), (''SANS'', Flag False), (''XAS'', Flag True), (''XRD'', Flag True)],
          [(''Cell'', Label ''C''), (''SANS'', Flag False), (''XAS'', Flag False), (''XRD'', Flag True)]]"
  by code_simp

lemma offered_only_XRD: "selections_offered (registry_frame registry_ABC) only_XRD"
  by code_simp

text \<open>Claim C6 at the scenario's registry with XRD selected: rows for cells A and C.\<close>

theorem matrix_columns_are_all_techniques_witness:
  "all_techniques (registry_frame registry_ABC) = Inr [''SANS'', ''XAS'', ''XRD'']
   \<and> filter_engine (registry_frame registry_ABC) only_XRD
       = Inr ((registry_frame registry_ABC)\<lparr>rows := [cell_A, cell_C]\<rparr>)
   \<and> selections_offered (registry_frame registry_ABC) only_XRD
   \<and> technique_matrix registry_ABC ((registry_frame registry_ABC)\<lparr>rows := [cell_A, cell_C]\<rparr>)
        [''SANS'', ''XAS'', ''XRD'']
       = Inr [[(''Cell'', Label ''A''), (''SANS'', Flag False), (''XAS'', Flag True), (''XRD'', Flag True)],
              [(''Cell'', Label ''C''), (''SANS'', Flag False), (''XAS'', Flag False), (''XRD'', Flag True)]]
   \<and> set [''SANS'', ''XAS'', ''XRD''] = (\<Union>r \<in> set registry_ABC. set (techniques r))
   \<and> map_of (matrix_row [''SANS'', ''XAS'', ''XRD''] cell_C) ''XAS''
       = Some (Flag (''XAS'' \<in> set (techniques cell_C)))
   \<and> map_of (matrix_row [''SANS'', ''XAS'', ''XRD''] cell_C) ''Cell'' = Some (Label (name cell_C))"
proof -
  note c = matrix_columns_are_all_techniques[OF all_techniques_ABC run_only_XRD, of _ cell_C]
  note cells = c[THEN conjunct2, THEN conjunct2, THEN conjunct2, THEN conjunct2, THEN conjunct2]
  have c1: "set [''SANS'', ''XAS'', ''XRD''] = (\<Union>r \<in> set registry_ABC. set (techniques r))"
    by (rule c[THEN conjunct1])
  have c2: "map_of (matrix_row [''SANS'', ''XAS'', ''XRD''] cell_C) ''XAS''
       = Some (Flag (''XAS'' \<in> set (techniques cell_C)))"
    by (rule cells[THEN conjunct1, rule_format]) simp
  have c3: "map_of (matrix_row [''SANS'', ''XAS'', ''XRD''] cell_C) ''Cell'' = Some (Label (name cell_C))"
    by (rule cells[THEN conjunct2, rule_format]) simp
  show ?thesis
    by (intro conjI) (rule all_techniques_ABC run_only_XRD offered_only_XRD matrix_ABC c1 c2 c3)+
qed

text \<open>
  Claim C10. The entries that get a matrix row are the entries of the registry whose name
  is the name of some record of the filtered frame. So an entry that the filter dropped
  still gets a row when a record of the same name was kept.
\<close>

theorem matrix_rows_chosen_by_name:
  assumes "technique_matrix data filtered_df all_techs = Inr m"
  shows "m = map (matrix_row all_techs) (matrix_entries data filtered_df)
     \<and> (entry \<in> set (matrix_entries data filtered_df) \<longleftrightarrow>
          entry \<in> set data \<and> name entry \<in> name ` set (rows filtered_df))
     \<and> (entry \<in> set data \<and> kept \<in> set (rows filtered_df) \<and> name entry = name kept
          \<longrightarrow> matrix_row all_techs entry \<in> set m)"
proof -
  have m_eq: "m = map (matrix_row all_techs) (matrix_entries data filtered_df)"
    using assms by (rule technique_matrix_result)
  have mem: "entry \<in> set (matrix_entries data filtered_df) \<longleftrightarrow>
      entry \<in> set data \<and> name entry \<in> name ` set (rows filtered_df)"
    by (simp add: matrix_entries_def)
  have row: "entry \<in> set data \<and> kept \<in> set (rows filtered_df) \<and> name entry = name kept
          \<longrightarrow> matrix_row all_techs entry \<in> set m"
    unfolding m_eq by (simp add: matrix_entries_def)
  show ?thesis
    by (intro conjI) (rule m_eq mem row)+
qed

lemma run_twins:
  "filter_engine (registry_frame registry_twins) twin_only
     = Inr ((registry_frame registry_twins)\<lparr>rows := [cell_A]\<rparr>)"
  by code_simp

lemma matrix_twins:
  "technique_matrix registry_twins ((registry_frame registry_twins)\<lparr>rows := [cell_A]\<rparr>) [''XRD'']
     = Inr [[(''Cell'', Label ''A''), (''XRD'', Flag True)],
            [(''Cell'', Label ''A''), (''XRD'', Flag False)]]"
  by code_simp

text \<open>
  Claim C10 on a registry with two cells named A: with the digital twin flag only cell A
  is kept, and its namesake without a CAD model gets a row all the same.
\<close>

theorem matrix_rows_chosen_by_name_witness:
  "filter_engine (registry_frame registry_twins) twin_only
     = Inr ((registry_frame registry_twins)\<lparr>rows := [cell_A]\<rparr>)
   \<and> technique_matrix registry_twins ((registry_frame registry_twins)\<lparr>rows := [cell_A]\<rparr>) [''XRD'']
     = Inr [[(''Cell'', Label ''A''), (''XRD'', Flag True)],
            [(''Cell'', Label ''A''), (''XRD'', Flag False)]]
   \<and> cell_A_twin \<in> set registry_twins
   \<and> cell_A_twin \<notin> set (rows ((registry_frame registry_twins)\<lparr>rows := [cell_A]\<rparr>))
   \<and> name cell_A_twin = name cell_A
   \<and> matrix_row [''XRD''] cell_A_twin
       \<in> set [[(''Cell'', Label ''A''), (''XRD'', Flag True)],
               [(''Cell'', Label ''A''), (''XRD'', Flag False)]]
   \<and> cell_A_twin \<in> set (matrix_entries registry_twins
        ((registry_frame registry_twins)\<lparr>rows := [cell_A]\<rparr>))"
proof -
  note c = matrix_rows_chosen_by_name[OF matrix_twins, of cell_A_twin cell_A]
  have facts: "cell_A_twin \<in> set registry_twins"
    "cell_A \<in> set (rows ((registry_frame registry_twins)\<lparr>rows := [cell_A]\<rparr>))"
    "cell_A_twin \<notin> set (rows ((registry_frame registry_twins)\<lparr>rows := [cell_A]\<rparr>))"
    "name cell_A_twin = name cell_A"
    by (simp_all add: registry_twins_def cell_A_def cell_A_twin_def)
  have r1: "matrix_row [''XRD''] cell_A_twin
       \<in> set [[(''Cell'', Label ''A''), (''XRD'', Flag True)],
               [(''Cell'', Label ''A''), (''XRD'', Flag False)]]"
    by (rule c[THEN conjunct2, THEN conjunct2, rule_format]) (intro conjI facts)
  have "name cell_A_twin \<in> name ` set (rows ((registry_frame registry_twins)\<lparr>rows := [cell_A]\<rparr>))"
    by (rule image_eqI[where f = name and x = cell_A, OF facts(4) facts(2)])
  with facts(1)
  have r2: "cell_A_twin \<in> set (matrix_entries registry_twins
        ((registry_frame registry_twins)\<lparr>rows := [cell_A]\<rparr>))"
    by (simp only: c[THEN conjunct2, THEN conjunct1])
  show ?thesis
    by (intro conjI) (rule run_twins matrix_twins facts(1,3,4) r1 r2)+
qed

subsection \<open>The glossary\<close>

lemma str_in_iff: "str_in key tech \<longleftrightarrow> sublist key tech"
proof (induction tech)
  case Nil
  then show ?case by simp
next
  case (Cons c cs)
  then show ?case by (auto simp: sublist_Cons_right)
qed

lemma partial_match_none:
  "\<forall>item \<in> set glossary. \<not> key_matches str_lower (fst item) tech \<Longrightarrow>
     partial_match str_lower glossary tech = ''Definition unavailable.''"
  by (induction glossary) (auto simp: key_matches_def str_in_iff)

lemma partial_match_first:
  "i < length glossary \<Longrightarrow> key_matches str_lower (fst (glossary ! i)) tech \<Longrightarrow>
   \<forall>j < i. \<not> key_matches str_lower (fst (glossary ! j)) tech \<Longrightarrow>
     partial_match str_lower glossary tech = snd (glossary ! i)"
proof (induction glossary arbitrary: i)
  case Nil
  then show ?case by simp
next
  case (Cons item items)
  obtain key val where item: "item = (key, val)"
    by (cases item)
  show ?case
  proof (cases i)
    case 0
    with Cons.prems item show ?thesis
      by (simp add: key_matches_def str_in_iff)
  next
    case (Suc k)
    with Cons.prems have "\<not> key_matches str_lower (fst ((item # items) ! 0)) tech"
      by blast
    then have no: "\<not> str_in (str_lower key) (str_lower tech)"
      by (simp add: item key_matches_def str_in_iff)
    from Cons.prems Suc have "k < length items" "key_matches str_lower (fst (items ! k)) tech"
      by simp_all
    moreover have "\<forall>j < k. \<not> key_matches str_lower (fst (items ! j)) tech"
    proof (intro allI impI)
      fix j assume "j < k"
      then have "Suc j < i" using Suc by simp
      with Cons.prems(3) have "\<not> key_matches str_lower (fst ((item # items) ! Suc j)) tech"
        by blast
      then show "\<not> key_matches str_lower (fst (items ! j)) tech" by simp
    qed
    ultimately have "partial_match str_lower items tech = snd (items ! k)"
      by (rule Cons.IH)
    with no item Suc show ?thesis by simp
  qed
qed

lemma partial_match_range:
  "partial_match str_lower glossary tech = ''Definition unavailable.''
   \<or> partial_match str_lower glossary tech \<in> snd ` set glossary"
proof (induction glossary)
  case Nil
  then show ?case by simp
next
  case (Cons item items)
  obtain key val where item: "item = (key, val)"
    by (cases item)
  show ?case
  proof (cases "str_in (str_lower key) (str_lower tech)")
    case True
    then show ?thesis by (simp add: item)
  next
    case False
    with Cons show ?thesis by (auto simp: item)
  qed
qed

lemma ascii_lower_alphabet:
  "ascii_lower ''ABCDEFGHIJKLMNOPQRSTUVWXYZ'' = ''abcdefghijklmnopqrstuvwxyz''"
  by code_simp

lemma lower_char_other: "c \<notin> set ''ABCDEFGHIJKLMNOPQRSTUVWXYZ'' \<Longrightarrow> lower_char c = c"
proof -
  assume other: "c \<notin> set ''ABCDEFGHIJKLMNOPQRSTUVWXYZ''"
  have "\<not> (65 \<le> (of_char c :: nat) \<and> (of_char c :: nat) \<le> 90)"
  proof
    assume "65 \<le> (of_char c :: nat) \<and> (of_char c :: nat) \<le> 90"
    then have "(of_char c :: nat) \<in> {65 ..< 91}"
      by simp
    then have "(of_char c :: nat) \<in> set [65 ..< 91]"
      by (simp only: set_upt)
    then have "char_of (of_char c :: nat) \<in> set (map char_of [65 ..< 91 :: nat])"
      unfolding set_map by (rule imageI)
    moreover have "map char_of [65 ..< 91 :: nat] = ''ABCDEFGHIJKLMNOPQRSTUVWXYZ''"
      by code_simp
    ultimately show False
      using other by simp
  qed
  then show ?thesis
    unfolding lower_char_def Let_def by (rule if_not_P)
qed

lemma lowers_ascii_ascii_lower: "lowers_ascii ascii_lower"
  by (simp add: lowers_ascii_def)

lemma key_matches_ascii:
  "lowers_ascii str_lower \<Longrightarrow> is_ascii key \<Longrightarrow> is_ascii tech \<Longrightarrow>
     key_matches str_lower key tech = sublist (ascii_lower key) (ascii_lower tech)"
  by (simp add: key_matches_def lowers_ascii_def)

lemma partial_match_ascii:
  "lowers_ascii str_lower \<Longrightarrow> list_all (\<lambda>item. is_ascii (fst item)) glossary \<Longrightarrow>
   is_ascii tech \<Longrightarrow>
     partial_match str_lower glossary tech = partial_match ascii_lower glossary tech"
  by (induction glossary) (auto simp: lowers_ascii_def)

lemma glossary_keys_ascii: "list_all (\<lambda>item. is_ascii (fst item)) TECHNIQUE_DEFINITIONS"
  by code_simp

lemma technique_description_ascii:
  "lowers_ascii str_lower \<Longrightarrow> is_ascii tech \<Longrightarrow>
     technique_description str_lower tech = technique_description ascii_lower tech"
  unfolding technique_description_def
  by (rule partial_match_ascii) (simp_all add: glossary_keys_ascii)

text \<open>
  Claim C7. The partial match returns the sentinel when no key of the glossary matches the
  candidate, and otherwise the definition stored with the first matching key in the
  glossary's order, where a key matches when its lowercased text is contained in the
  lowercased candidate; it is a total function of the candidate, and this holds for every
  glossary, every candidate and whatever \<open>str.lower\<close> does to text that is not ASCII.
  Lowercasing turns each of the letters A to Z into its small letter and leaves every other
  character, and for a function that does so on ASCII text a key and a candidate in ASCII
  match exactly when the one, lowercased letter by letter, is contained in the other: so
  the match does not depend on the case of either. With XRD before XRD-CT the candidate
  XRD-CT Synchrotron gets the XRD definition, and so does the candidate in small letters;
  with the keys in small letters and in the other order the same candidate gets the
  XRD-CT definition. In the script's own table XRD is item 13 and XRD-CT item 14, and the
  table gives XRD-CT Synchrotron and in situ xrd-ct the XRD definition, Operando Xas the
  XAS definition and Raman the sentinel.
\<close>

theorem glossary_first_match_wins:
  "((\<forall>item \<in> set glossary. \<not> key_matches str_lower (fst item) tech) \<longrightarrow>
      partial_match str_lower glossary tech = ''Definition unavailable.'')
   \<and> (i < length glossary \<and> key_matches str_lower (fst (glossary ! i)) tech
        \<and> (\<forall>j < i. \<not> key_matches str_lower (fst (glossary ! j)) tech) \<longrightarrow>
      partial_match str_lower glossary tech = snd (glossary ! i))
   \<and> (partial_match str_lower glossary tech = ''Definition unavailable.''
        \<or> partial_match str_lower glossary tech \<in> snd ` set glossary)
   \<and> technique_description str_lower tech = partial_match str_lower TECHNIQUE_DEFINITIONS tech
   \<and> ascii_lower ''ABCDEFGHIJKLMNOPQRSTUVWXYZ'' = ''abcdefghijklmnopqrstuvwxyz''
   \<and> (c \<notin> set ''ABCDEFGHIJKLMNOPQRSTUVWXYZ'' \<longrightarrow> lower_char c = c)
   \<and> (lowers_ascii str_lower \<longrightarrow>
        (is_ascii key \<and> is_ascii tech \<longrightarrow>
           key_matches str_lower key tech = sublist (ascii_lower key) (ascii_lower tech))
        \<and> partial_match str_lower [(''XRD'', xrd), (''XRD-CT'', xrd_ct)] ''XRD-CT Synchrotron''
            = xrd
        \<and> partial_match str_lower [(''XRD'', xrd), (''XRD-CT'', xrd_ct)] ''in situ xrd-ct''
            = xrd
        \<and> partial_match str_lower [(''xrd-ct'', xrd_ct), (''xrd'', xrd)] ''XRD-CT Synchrotron''
            = xrd_ct
        \<and> technique_description str_lower ''XRD-CT Synchrotron''
            = snd (TECHNIQUE_DEFINITIONS ! 13)
        \<and> technique_description str_lower ''in situ xrd-ct'' = snd (TECHNIQUE_DEFINITIONS ! 13)
        \<and> technique_description str_lower ''Operando Xas'' = snd (TECHNIQUE_DEFINITIONS ! 5)
        \<and> technique_description str_lower ''Raman'' = ''Definition unavailable.'')
   \<and> fst (TECHNIQUE_DEFINITIONS ! 13) = ''XRD'' \<and> fst (TECHNIQUE_DEFINITIONS ! 14) = ''XRD-CT''
   \<and> fst (TECHNIQUE_DEFINITIONS ! 5) = ''XAS''"
proof -
  have none: "(\<forall>item \<in> set glossary. \<not> key_matches str_lower (fst item) tech) \<longrightarrow>
      partial_match str_lower glossary tech = ''Definition unavailable.''"
    using partial_match_none by blast
  have first: "i < length glossary \<and> key_matches str_lower (fst (glossary ! i)) tech
        \<and> (\<forall>j < i. \<not> key_matches str_lower (fst (glossary ! j)) tech) \<longrightarrow>
      partial_match str_lower glossary tech = snd (glossary ! i)"
    using partial_match_first by blast
  have descr: "technique_description str_lower tech
      = partial_match str_lower TECHNIQUE_DEFINITIONS tech"
    by (simp add: technique_description_def)
  have other: "c \<notin> set ''ABCDEFGHIJKLMNOPQRSTUVWXYZ'' \<longrightarrow> lower_char c = c"
    using lower_char_other by blast
  have keys: "fst (TECHNIQUE_DEFINITIONS ! 13) = ''XRD''"
    "fst (TECHNIQUE_DEFINITIONS ! 14) = ''XRD-CT''" "fst (TECHNIQUE_DEFINITIONS ! 5) = ''XAS''"
    by code_simp+
  have lowered: "lowers_ascii str_lower \<longrightarrow>
        (is_ascii key \<and> is_ascii tech \<longrightarrow>
           key_matches str_lower key tech = sublist (ascii_lower key) (ascii_lower tech))
        \<and> partial_match str_lower [(''XRD'', xrd), (''XRD-CT'', xrd_ct)] ''XRD-CT Synchrotron''
            = xrd
        \<and> partial_match str_lower [(''XRD'', xrd), (''XRD-CT'', xrd_ct)] ''in situ xrd-ct''
            = xrd
        \<and> partial_match str_lower [(''xrd-ct'', xrd_ct), (''xrd'', xrd)] ''XRD-CT Synchrotron''
            = xrd_ct
        \<and> technique_description str_lower ''XRD-CT Synchrotron''
            = snd (TECHNIQUE_DEFINITIONS ! 13)
        \<and> technique_description str_lower ''in situ xrd-ct'' = snd (TECHNIQUE_DEFINITIONS ! 13)
        \<and> technique_description str_lower ''Operando Xas'' = snd (TECHNIQUE_DEFINITIONS ! 5)
        \<and> technique_description str_lower ''Raman'' = ''Definition unavailable.''"
  proof
    assume py: "lowers_ascii str_lower"
    have ascii: "is_ascii ''XRD-CT Synchrotron''" "is_ascii ''in situ xrd-ct''"
      "is_ascii ''Operando Xas''" "is_ascii ''Raman''"
      "list_all (\<lambda>item. is_ascii (fst item)) [(''XRD'', xrd), (''XRD-CT'', xrd_ct)]"
      "list_all (\<lambda>item. is_ascii (fst item)) [(''xrd-ct'', xrd_ct), (''xrd'', xrd)]"
      by (simp_all add: is_ascii_def)
    have m: "is_ascii key \<and> is_ascii tech \<longrightarrow>
           key_matches str_lower key tech = sublist (ascii_lower key) (ascii_lower tech)"
      using key_matches_ascii[OF py] by blast
    have two_a: "partial_match str_lower [(''XRD'', xrd), (''XRD-CT'', xrd_ct)]
        ''XRD-CT Synchrotron'' = xrd"
      unfolding partial_match_ascii[OF py ascii(5) ascii(1)] by code_simp
    have two_b: "partial_match str_lower [(''XRD'', xrd), (''XRD-CT'', xrd_ct)]
        ''in situ xrd-ct'' = xrd"
      unfolding partial_match_ascii[OF py ascii(5) ascii(2)] by code_simp
    have two_c: "partial_match str_lower [(''xrd-ct'', xrd_ct), (''xrd'', xrd)]
        ''XRD-CT Synchrotron'' = xrd_ct"
      unfolding partial_match_ascii[OF py ascii(6) ascii(1)] by code_simp
    have t1: "technique_description str_lower ''XRD-CT Synchrotron''
        = snd (TECHNIQUE_DEFINITIONS ! 13)"
      unfolding technique_description_ascii[OF py ascii(1)] by code_simp
    have t2: "technique_description str_lower ''in situ xrd-ct''
        = snd (TECHNIQUE_DEFINITIONS ! 13)"
      unfolding technique_description_ascii[OF py ascii(2)] by code_simp
    have t3: "technique_description str_lower ''Operando Xas'' = snd (TECHNIQUE_DEFINITIONS ! 5)"
      unfolding technique_description_ascii[OF py ascii(3)] by code_simp
    have t4: "technique_description str_lower ''Raman'' = ''Definition unavailable.''"
      unfolding technique_description_ascii[OF py ascii(4)] by code_simp
    show "(is_ascii key \<and> is_ascii tech \<longrightarrow>
           key_matches str_lower key tech = sublist (ascii_lower key) (ascii_lower tech))
        \<and> partial_match str_lower [(''XRD'', xrd), (''XRD-CT'', xrd_ct)] ''XRD-CT Synchrotron''
            = xrd
        \<and> partial_match str_lower [(''XRD'', xrd), (''XRD-CT'', xrd_ct)] ''in situ xrd-ct''
            = xrd
        \<and> partial_match str_lower [(''xrd-ct'', xrd_ct), (''xrd'', xrd)] ''XRD-CT Synchrotron''
            = xrd_ct
        \<and> technique_description str_lower ''XRD-CT Synchrotron''
            = snd (TECHNIQUE_DEFINITIONS ! 13)
        \<and> technique_description str_lower ''in situ xrd-ct'' = snd (TECHNIQUE_DEFINITIONS ! 13)
        \<and> technique_description str_lower ''Operando Xas'' = snd (TECHNIQUE_DEFINITIONS ! 5)
        \<and> technique_description str_lower ''Raman'' = ''Definition unavailable.''"
      by (intro conjI) (rule m two_a two_b two_c t1 t2 t3 t4)+
  qed
  show ?thesis
    by (intro conjI)
      (rule none first partial_match_range descr ascii_lower_alphabet other lowered keys)+
qed

lemma raman_matches_no_key:
  "\<forall>item \<in> set TECHNIQUE_DEFINITIONS. \<not> key_matches ascii_lower (fst item) ''Raman''"
  unfolding key_matches_def str_in_iff[symmetric] by code_simp

lemma xrd_matches_first:
  "1 < length [(''SANS'', ''zero''), (''XRD'', ''one''), (''XRD-CT'', ''two'')]
   \<and> key_matches ascii_lower (fst ([(''SANS'', ''zero''), (''XRD'', ''one''), (''XRD-CT'', ''two'')] ! 1))
       ''in situ xrd-ct''
   \<and> (\<forall>j < 1. \<not> key_matches ascii_lower
          (fst ([(''SANS'', ''zero''), (''XRD'', ''one''), (''XRD-CT'', ''two'')] ! j))
          ''in situ xrd-ct'')"
proof -
  have second: "key_matches ascii_lower ''XRD'' ''in situ xrd-ct''"
    unfolding key_matches_def str_in_iff[symmetric] by code_simp
  have first: "\<not> key_matches ascii_lower ''SANS'' ''in situ xrd-ct''"
    unfolding key_matches_def str_in_iff[symmetric] by code_simp
  show ?thesis
    using first second by simp
qed

text \<open>
  Claim C7 with letter-by-letter lowercasing for \<open>str.lower\<close>: a candidate no key matches,
  a glossary whose second key is the first to match a candidate of the other case, a
  character that is not a capital letter, and the script's table.
\<close>

theorem glossary_first_match_wins_witness:
  "lowers_ascii ascii_lower
   \<and> partial_match ascii_lower TECHNIQUE_DEFINITIONS ''Raman'' = ''Definition unavailable.''
   \<and> partial_match ascii_lower [(''SANS'', ''zero''), (''XRD'', ''one''), (''XRD-CT'', ''two'')]
         ''in situ xrd-ct''
       = snd ([(''SANS'', ''zero''), (''XRD'', ''one''), (''XRD-CT'', ''two'')] ! 1)
   \<and> CHR ''x'' \<notin> set ''ABCDEFGHIJKLMNOPQRSTUVWXYZ'' \<and> lower_char (CHR ''x'') = CHR ''x''
   \<and> is_ascii ''XRD'' \<and> is_ascii ''in situ xrd-ct''
   \<and> key_matches ascii_lower ''XRD'' ''in situ xrd-ct''
       = sublist (ascii_lower ''XRD'') (ascii_lower ''in situ xrd-ct'')
   \<and> partial_match ascii_lower [(''XRD'', ''one''), (''XRD-CT'', ''two'')] ''in situ xrd-ct''
       = ''one''
   \<and> technique_description ascii_lower ''XRD-CT Synchrotron'' = snd (TECHNIQUE_DEFINITIONS ! 13)
   \<and> technique_description ascii_lower ''in situ xrd-ct'' = snd (TECHNIQUE_DEFINITIONS ! 13)
   \<and> technique_description ascii_lower ''Raman'' = ''Definition unavailable.''"
proof -
  note none = glossary_first_match_wins[where glossary = TECHNIQUE_DEFINITIONS
      and str_lower = ascii_lower and tech = "''Raman''", THEN conjunct1, THEN mp,
      OF raman_matches_no_key]
  note first = glossary_first_match_wins[where i = 1 and str_lower = ascii_lower
      and glossary = "[(''SANS'', ''zero''), (''XRD'', ''one''), (''XRD-CT'', ''two'')]"
      and tech = "''in situ xrd-ct''", THEN conjunct2, THEN conjunct1, THEN mp,
      OF xrd_matches_first]
  have x: "CHR ''x'' \<notin> set ''ABCDEFGHIJKLMNOPQRSTUVWXYZ''"
    by simp
  note unchanged = glossary_first_match_wins[where c = "CHR ''x''", THEN conjunct2,
      THEN conjunct2, THEN conjunct2, THEN conjunct2, THEN conjunct2, THEN conjunct1,
      THEN mp, OF x]
  note lowered = glossary_first_match_wins[where str_lower = ascii_lower
      and key = "''XRD''" and tech = "''in situ xrd-ct''" and xrd = "''one''"
      and xrd_ct = "''two''", THEN conjunct2, THEN conjunct2, THEN conjunct2,
      THEN conjunct2, THEN conjunct2, THEN conjunct2, THEN conjunct1, THEN mp,
      OF lowers_ascii_ascii_lower]
  have ascii: "is_ascii ''XRD''" "is_ascii ''in situ xrd-ct''"
    by (simp_all add: is_ascii_def)
  have both: "is_ascii ''XRD'' \<and> is_ascii ''in situ xrd-ct''"
    using ascii by simp
  note contained = lowered[THEN conjunct1, THEN mp, OF both]
  note two = lowered[THEN conjunct2, THEN conjunct2, THEN conjunct1]
  note t1 = lowered[THEN conjunct2, THEN conjunct2, THEN conjunct2, THEN conjunct2,
      THEN conjunct1]
  note t2 = lowered[THEN conjunct2, THEN conjunct2, THEN conjunct2, THEN conjunct2,
      THEN conjunct2, THEN conjunct1]
  note t4 = lowered[THEN conjunct2, THEN conjunct2, THEN conjunct2, THEN conjunct2,
      THEN conjunct2, THEN conjunct2, THEN conjunct2]
  show ?thesis
    by (intro conjI)
      (rule lowers_ascii_ascii_lower none first x unchanged ascii contained two t1 t2 t4)+
qed

subsection \<open>The loader\<close>

lemma record_shaped_to_json: "record_shaped (to_json r)"
  by (cases "max_temp_c r"; cases "pressure_control r")
    (simp_all add: record_shaped_def to_json_def optional_item_def str_array_def
       list_all_iff)

lemma pd_json_normalize_scalar:
  "\<not> is_dict document \<Longrightarrow> \<not> is_list document \<Longrightarrow>
     pd_json_normalize frame_of_mixed_list document = Inl NotImplementedError"
  by (cases document) (simp_all add: pd_json_normalize_def)

lemma run_script_load:
  "run_script frame_of_mixed_list source rest_of_script =
     (case load_registry frame_of_mixed_list source of
        Inl h \<Rightarrow> Inl h | Inr loaded \<Rightarrow> rest_of_script (fst loaded) (snd loaded))"
  by (simp add: run_script_def split: sum.splits prod.splits)

text \<open>
  Claim C8, as amended. A registry file that is not valid JSON makes \<open>load_registry\<close>
  raise the JSON decoding error, and a file whose document is neither a list nor an object
  (a number, a string, a boolean, null) makes it raise NotImplementedError; either
  exception is uncaught and nothing of the script after the load runs. The only handler is
  for a missing file, with the message and a stop; any other exception of \<open>open\<close> is
  uncaught as well. The loader checks no shape: every JSON list of objects is flattened
  and returned with the list, a single object is flattened into a frame of one row, and a
  list with an element that is not an object is loaded or not as pandas' frame
  construction decides. A registry of hardware records is record-shaped and loads into the
  columns of \<open>registry_frame\<close>.
\<close>

theorem load_registry_outcomes:
  "load_registry frame_of_mixed_list Invalid_JSON = Inl (Uncaught JSONDecodeError)
   \<and> run_script frame_of_mixed_list Invalid_JSON rest_of_script = Inl (Uncaught JSONDecodeError)
   \<and> (\<not> is_dict document \<and> \<not> is_list document \<longrightarrow>
        load_registry frame_of_mixed_list (Document document) = Inl (Uncaught NotImplementedError)
        \<and> run_script frame_of_mixed_list (Document document) rest_of_script
            = Inl (Uncaught NotImplementedError))
   \<and> load_registry frame_of_mixed_list (Open_Raises FileNotFoundError)
       = Inl (Stopped not_found_message)
   \<and> run_script frame_of_mixed_list (Open_Raises FileNotFoundError) rest_of_script
       = Inl (Stopped not_found_message)
   \<and> (e \<noteq> FileNotFoundError \<longrightarrow>
        load_registry frame_of_mixed_list (Open_Raises e) = Inl (Uncaught e)
        \<and> run_script frame_of_mixed_list (Open_Raises e) rest_of_script = Inl (Uncaught e))
   \<and> load_registry frame_of_mixed_list (Document (JArr (map JObj objects)))
       = Inr (json_normalize objects, JArr (map JObj objects))
   \<and> run_script frame_of_mixed_list (Document (JArr (map JObj objects))) rest_of_script
       = rest_of_script (json_normalize objects) (JArr (map JObj objects))
   \<and> load_registry frame_of_mixed_list (Document (JObj items))
       = Inr (json_normalize [items], JObj items)
   \<and> load_registry frame_of_mixed_list (Document (JArr xs))
       = (if list_all is_dict xs then Inr (json_normalize (map items_of xs), JArr xs)
          else case frame_of_mixed_list xs of
                 Inl e \<Rightarrow> if e = FileNotFoundError then Inl (Stopped not_found_message)
                          else Inl (Uncaught e)
               | Inr df \<Rightarrow> Inr (df, JArr xs))
   \<and> record_shaped (to_json r)
   \<and> load_registry frame_of_mixed_list (Document (registry_document records))
       = Inr (json_normalize (map to_json records), registry_document records)
   \<and> columns (json_normalize (map to_json records)) = columns (registry_frame records)"
proof -
  have invalid: "load_registry frame_of_mixed_list Invalid_JSON = Inl (Uncaught JSONDecodeError)"
    by (simp add: load_registry_def try_block_def)
  have invalid_run: "run_script frame_of_mixed_list Invalid_JSON rest_of_script
      = Inl (Uncaught JSONDecodeError)"
    by (simp add: run_script_load invalid)
  have scalar: "\<not> is_dict document \<and> \<not> is_list document \<longrightarrow>
        load_registry frame_of_mixed_list (Document document) = Inl (Uncaught NotImplementedError)
        \<and> run_script frame_of_mixed_list (Document document) rest_of_script
            = Inl (Uncaught NotImplementedError)"
    by (simp add: run_script_load load_registry_def try_block_def pd_json_normalize_scalar)
  have missing: "load_registry frame_of_mixed_list (Open_Raises FileNotFoundError)
       = Inl (Stopped not_found_message)"
    by (simp add: load_registry_def try_block_def)
  have missing_run: "run_script frame_of_mixed_list (Open_Raises FileNotFoundError) rest_of_script
       = Inl (Stopped not_found_message)"
    by (simp add: run_script_load missing)
  have unreadable: "e \<noteq> FileNotFoundError \<longrightarrow>
        load_registry frame_of_mixed_list (Open_Raises e) = Inl (Uncaught e)
        \<and> run_script frame_of_mixed_list (Open_Raises e) rest_of_script = Inl (Uncaught e)"
    by (simp add: run_script_load load_registry_def try_block_def)
  have objects_run: "run_script frame_of_mixed_list (Document (JArr (map JObj objects)))
       rest_of_script = rest_of_script (json_normalize objects) (JArr (map JObj objects))"
    by (simp add: run_script_load load_registry_list_of_dicts)
  have single: "load_registry frame_of_mixed_list (Document (JObj items))
       = Inr (json_normalize [items], JObj items)"
    by (simp add: load_registry_def try_block_def pd_json_normalize_def)
  have any_list: "load_registry frame_of_mixed_list (Document (JArr xs))
       = (if list_all is_dict xs then Inr (json_normalize (map items_of xs), JArr xs)
          else case frame_of_mixed_list xs of
                 Inl e \<Rightarrow> if e = FileNotFoundError then Inl (Stopped not_found_message)
                          else Inl (Uncaught e)
               | Inr df \<Rightarrow> Inr (df, JArr xs))"
    by (simp add: load_registry_def try_block_def pd_json_normalize_def split: sum.splits)
  have cols: "columns (json_normalize (map to_json records)) = columns (registry_frame records)"
    by (simp add: registry_frame_def)
  show ?thesis
    by (intro conjI)
      (rule invalid invalid_run scalar missing missing_run unreadable
         load_registry_list_of_dicts objects_run single any_list record_shaped_to_json
         load_registry_document cols)+
qed

text \<open>
  The amended claim at a file that is not JSON, at the documents \<open>5\<close> and \<open>null\<close>, at a
  path that cannot be opened, and at the scenario's registry as a document.
\<close>

theorem load_registry_outcomes_witness:
  "load_registry any_frame_of_mixed_list Invalid_JSON = Inl (Uncaught JSONDecodeError)
   \<and> \<not> is_dict (JNum 5) \<and> \<not> is_list (JNum 5)
   \<and> load_registry any_frame_of_mixed_list (Document (JNum 5))
       = Inl (Uncaught NotImplementedError)
   \<and> \<not> is_dict JNull \<and> \<not> is_list JNull
   \<and> load_registry any_frame_of_mixed_list (Document JNull) = Inl (Uncaught NotImplementedError)
   \<and> PermissionError \<noteq> FileNotFoundError
   \<and> load_registry any_frame_of_mixed_list (Open_Raises PermissionError)
       = Inl (Uncaught PermissionError)
   \<and> load_registry any_frame_of_mixed_list (Document (registry_document registry_ABC))
       = Inr (json_normalize (map to_json registry_ABC), registry_document registry_ABC)
   \<and> record_shaped (to_json cell_B)"
proof -
  note c = load_registry_outcomes[where frame_of_mixed_list = any_frame_of_mixed_list
      and document = "JNum 5" and e = PermissionError and r = cell_B
      and records = registry_ABC]
  note d = load_registry_outcomes[where frame_of_mixed_list = any_frame_of_mixed_list
      and document = JNull]
  note third = c[THEN conjunct2, THEN conjunct2, THEN conjunct1]
  note third_null = d[THEN conjunct2, THEN conjunct2, THEN conjunct1]
  note sixth = c[THEN conjunct2, THEN conjunct2, THEN conjunct2, THEN conjunct2,
      THEN conjunct2, THEN conjunct1]
  note rest = c[THEN conjunct2, THEN conjunct2, THEN conjunct2, THEN conjunct2,
      THEN conjunct2, THEN conjunct2, THEN conjunct2, THEN conjunct2, THEN conjunct2,
      THEN conjunct2]
  have five: "\<not> is_dict (JNum 5)" "\<not> is_list (JNum 5)"
    by simp_all
  have null: "\<not> is_dict JNull" "\<not> is_list JNull"
    by simp_all
  have five_both: "\<not> is_dict (JNum 5) \<and> \<not> is_list (JNum 5)"
    by simp
  have null_both: "\<not> is_dict JNull \<and> \<not> is_list JNull"
    by simp
  have other: "PermissionError \<noteq> FileNotFoundError"
    by simp
  show ?thesis
    by (intro conjI)
      (rule c[THEN conjunct1] five null other
         third[THEN mp, OF five_both, THEN conjunct1]
         third_null[THEN mp, OF null_both, THEN conjunct1]
         sixth[THEN mp, OF other, THEN conjunct1]
         rest[THEN conjunct1]
         rest[THEN conjunct2, THEN conjunct1])+
qed

text \<open>
  Claim C8 as stated fails on a list of objects that are not record-shaped: a document
  whose one object has only an id is loaded, not rejected.
\<close>

theorem unshaped_document_loads:
  "id_only_document = JArr (map JObj [[(''id'', JStr ''cell-x'')]])
   \<and> \<not> record_shaped [(''id'', JStr ''cell-x'')]
   \<and> load_registry any_frame_of_mixed_list (Document id_only_document)
       = Inr (\<lparr>columns = [''id''], rows = [[(''id'', JStr ''cell-x'')]]\<rparr>, id_only_document)"
  by code_simp

subsection \<open>The lookup by name\<close>


text \<open>
  The generator has no default: handed a name that no entry has, \<open>next\<close> raises.
\<close>

lemma lookup_by_name_absent:
  "cell_name \<notin> name ` set raw_json \<Longrightarrow> lookup_by_name raw_json cell_name = Inl StopIteration"
  by (induction raw_json) auto







end
